theory Spec2Isabelle
  imports Complex_Main "HOL-Library.AList"
begin

section \<open>Python values and exceptions\<close>

text \<open>
  The service is a Python module (\<^verbatim>\<open>scraper_service.py\<close>). Upstream bodies are JSON
  values as \<^verbatim>\<open>response.json()\<close> returns them; a dict is an association list in
  key order. A Python string is a list of 8-bit characters here: lengths, slices,
  \<^verbatim>\<open>split()\<close> and \<^verbatim>\<open>isdigit()\<close> are those of Python on ASCII text.
\<close>

datatype json =
    JNull
  | JBool bool
  | JInt int
  | JFloat rat
  | JStr string
  | JList "json list"
  | JDict "(string \<times> json) list"

text \<open>
  The exceptions the module raises or lets through. All of them are subclasses of
  Python's \<^verbatim>\<open>Exception\<close>. \<open>HTTPException\<close> carries the status code and the detail;
  \<open>RequestError\<close> is \<^verbatim>\<open>httpx.RequestError\<close>; \<open>BrowserError\<close> is any exception of the
  browser automation (timeouts included); \<open>ValidationError\<close> is pydantic's.
\<close>

datatype exn =
    HTTPException nat string
  | RequestError string
  | BrowserError string
  | JSONDecodeError
  | AttributeError
  | IndexError
  | KeyError
  | TypeError
  | NameError
  | ValidationError

definition and_then :: "exn + 'a \<Rightarrow> ('a \<Rightarrow> exn + 'b) \<Rightarrow> exn + 'b" where
  "and_then m f = (case m of Inl e \<Rightarrow> Inl e | Inr x \<Rightarrow> f x)"

subsection \<open>Decimal rendering of numbers\<close>

text \<open>\<^verbatim>\<open>str(n)\<close> of a natural number, as the f-strings render an index or a status
  code.\<close>

definition digit_char :: "nat \<Rightarrow> char" where
  "digit_char d = char_of (48 + d)"

fun str_nat :: "nat \<Rightarrow> string" where
  "str_nat n = (if n < 10 then [digit_char n] else str_nat (n div 10) @ [digit_char (n mod 10)])"

declare str_nat.simps [simp del]

subsection \<open>Operations on JSON values\<close>

text \<open>Truthiness, as \<^verbatim>\<open>if x\<close> tests it.\<close>

fun truthy :: "json \<Rightarrow> bool" where
  "truthy JNull = False"
| "truthy (JBool b) = b"
| "truthy (JInt i) = (i \<noteq> 0)"
| "truthy (JFloat r) = (r \<noteq> 0)"
| "truthy (JStr s) = (s \<noteq> [])"
| "truthy (JList xs) = (xs \<noteq> [])"
| "truthy (JDict kvs) = (kvs \<noteq> [])"

text \<open>\<^verbatim>\<open>d.get(key, default)\<close>: only a dict has the method.\<close>

fun py_get :: "json \<Rightarrow> string \<Rightarrow> json \<Rightarrow> exn + json" where
  "py_get (JDict kvs) k dflt = Inr (case map_of kvs k of Some v \<Rightarrow> v | None \<Rightarrow> dflt)"
| "py_get _ k dflt = Inl AttributeError"

text \<open>\<^verbatim>\<open>x[0]\<close>.\<close>

fun py_index0 :: "json \<Rightarrow> exn + json" where
  "py_index0 (JList []) = Inl IndexError"
| "py_index0 (JList (x # xs)) = Inr x"
| "py_index0 (JStr []) = Inl IndexError"
| "py_index0 (JStr (c # cs)) = Inr (JStr [c])"
| "py_index0 (JDict kvs) = Inl KeyError"
| "py_index0 _ = Inl TypeError"

text \<open>Iteration (\<^verbatim>\<open>for x in v\<close>): a list gives its elements, a string its
  characters, a dict its keys; nothing else is iterable.\<close>

fun py_iter :: "json \<Rightarrow> exn + json list" where
  "py_iter (JList xs) = Inr xs"
| "py_iter (JStr s) = Inr (map (\<lambda>c. JStr [c]) s)"
| "py_iter (JDict kvs) = Inr (map (\<lambda>kv. JStr (fst kv)) kvs)"
| "py_iter _ = Inl TypeError"

text \<open>\<^verbatim>\<open>xs[:n]\<close> on a list, with Python's reading of a negative bound.\<close>

definition py_take :: "int \<Rightarrow> 'a list \<Rightarrow> 'a list" where
  "py_take n xs = (if 0 \<le> n then take (nat n) xs else take (length xs - nat (- n)) xs)"

text \<open>\<^verbatim>\<open>v[:n]\<close> on a JSON value with \<open>n \<ge> 0\<close>: strings and lists can be sliced.\<close>

fun py_slice :: "nat \<Rightarrow> json \<Rightarrow> exn + json" where
  "py_slice n (JStr s) = Inr (JStr (take n s))"
| "py_slice n (JList xs) = Inr (JList (take n xs))"
| "py_slice n _ = Inl TypeError"

text \<open>\<^verbatim>\<open>sep.join(parts)\<close>.\<close>

fun join :: "string \<Rightarrow> string list \<Rightarrow> string" where
  "join sep [] = []"
| "join sep [x] = x"
| "join sep (x # y # ys) = x @ sep @ join sep (y # ys)"

text \<open>\<^verbatim>\<open>s.split(sep)\<close> for a one-character separator.\<close>

fun split_on :: "char \<Rightarrow> string \<Rightarrow> string list" where
  "split_on sep [] = [[]]"
| "split_on sep (c # cs) =
     (if c = sep then [] # split_on sep cs
      else (case split_on sep cs of [] \<Rightarrow> [[c]] | p # ps \<Rightarrow> (c # p) # ps))"

text \<open>A loop over \<^verbatim>\<open>enumerate(xs)\<close> whose body may raise; it stops at the first
  exception.\<close>

fun enumerate_map :: "(nat \<Rightarrow> 'a \<Rightarrow> exn + 'b) \<Rightarrow> nat \<Rightarrow> 'a list \<Rightarrow> exn + 'b list" where
  "enumerate_map f i [] = Inr []"
| "enumerate_map f i (x # xs) =
     (case f i x of
        Inl e \<Rightarrow> Inl e
      | Inr y \<Rightarrow> (case enumerate_map f (Suc i) xs of Inl e \<Rightarrow> Inl e | Inr ys \<Rightarrow> Inr (y # ys)))"

section \<open>Request and response models\<close>

record search_request =
  query :: string
  max_results :: int
  include_domains :: "string list option"
  perplexity_model :: string

record citation =
  cit_id :: string
  title :: string
  authors :: "string list option"
  source :: string
  year :: "int option"
  url :: "string option"
  pmid :: "string option"
  snippet :: "string option"

record search_response =
  provider :: string
  resp_query :: string
  content :: string
  citations :: "citation list"
  timestamp :: int

text \<open>Field validation of the pydantic models: a \<^verbatim>\<open>str\<close> field takes a string only,
  an \<^verbatim>\<open>Optional[str]\<close> field a string or \<^verbatim>\<open>None\<close>.\<close>

fun as_str :: "json \<Rightarrow> exn + string" where
  "as_str (JStr s) = Inr s"
| "as_str _ = Inl ValidationError"

fun as_opt_str :: "json \<Rightarrow> exn + string option" where
  "as_opt_str JNull = Inr None"
| "as_opt_str (JStr s) = Inr (Some s)"
| "as_opt_str _ = Inl ValidationError"

section \<open>Configuration\<close>

definition MEDICAL_DOMAINS :: "string list" where
  "MEDICAL_DOMAINS =
     [''ncbi.nlm.nih.gov'', ''pubmed.ncbi.nlm.nih.gov'', ''uptodate.com'', ''nejm.org'',
      ''jamanetwork.com'', ''thelancet.com'', ''cochrane.org'', ''mayoclinic.org'',
      ''acponline.org'']"

text \<open>\<^verbatim>\<open>a or b\<close> on two results of \<^verbatim>\<open>os.getenv\<close>, and \<^verbatim>\<open>not api_key\<close>: an unset
  variable and an empty one are both falsy.\<close>

definition py_or :: "string option \<Rightarrow> string option \<Rightarrow> string option" where
  "py_or a b = (case a of None \<Rightarrow> b | Some s \<Rightarrow> if s \<noteq> [] then a else b)"

definition not_set :: "string option \<Rightarrow> bool" where
  "not_set k = (case k of None \<Rightarrow> True | Some s \<Rightarrow> s = [])"

text \<open>A string in single quotes, as the CSS selectors have them.\<close>

definition quoted :: "string \<Rightarrow> string" where
  "quoted s = [CHR 0x27] @ s @ [CHR 0x27]"

definition newline :: string where
  "newline = [CHR 0x0A]"

definition divider :: string where
  "divider = newline @ newline @ ''---'' @ newline @ newline"

section \<open>The outside world\<close>

text \<open>What is sent to each upstream API (the fields that vary with the call).\<close>

record perplexity_payload =
  pp_bearer :: string
  pp_model :: string
  pp_system :: string
  pp_user :: string
  pp_temperature :: rat
  pp_return_citations :: bool
  pp_search_domain_filter :: "string list option"

record exa_payload =
  ex_bearer :: string
  ex_query :: string
  ex_numResults :: int
  ex_includeDomains :: "string list"

record tavily_payload =
  tv_api_key :: string
  tv_query :: string
  tv_include_domains :: "string list"
  tv_max_results :: int

record esearch_params =
  es_term :: string
  es_retmax :: int

text \<open>
  An HTTP call either cannot be completed (\<^verbatim>\<open>httpx.RequestError\<close>) or answers with a
  status code and a body; the body is \<open>None\<close> when it is not JSON, so that
  \<^verbatim>\<open>response.json()\<close> raises.
\<close>

datatype http_result = Fails string | Responds nat "json option"

text \<open>
  The environment variables, the clock (\<^verbatim>\<open>int(time.time() * 1000)\<close>), Python's
  \<^verbatim>\<open>str()\<close> on a value that is not a string, the message of a built-in or pydantic
  exception (it depends on the values at the place that raised it), and the answer of
  each upstream service to a request.
\<close>

record world =
  getenv :: "string \<Rightarrow> string option"
  now :: int
  str_of :: "json \<Rightarrow> string"
  exn_text :: "exn \<Rightarrow> string"
  perplexity_api :: "perplexity_payload \<Rightarrow> http_result"
  exa_api :: "exa_payload \<Rightarrow> http_result"
  tavily_api :: "tavily_payload \<Rightarrow> http_result"
  esearch :: "esearch_params \<Rightarrow> http_result"
  esummary :: "string \<Rightarrow> http_result"

text \<open>A value inside an f-string.\<close>

fun py_str :: "world \<Rightarrow> json \<Rightarrow> string" where
  "py_str w (JStr s) = s"
| "py_str w v = str_of w v"

text \<open>
  \<^verbatim>\<open>str(e)\<close> of an exception. Starlette renders an \<open>HTTPException\<close> as
  \<^verbatim>\<open>"<status>: <detail>"\<close>; an exception of the HTTP client or of the browser is
  rendered by its message; the text of any other exception is the world's.
\<close>

fun exn_str :: "world \<Rightarrow> exn \<Rightarrow> string" where
  "exn_str w (HTTPException code detail) = str_nat code @ '': '' @ detail"
| "exn_str w (RequestError msg) = msg"
| "exn_str w (BrowserError msg) = msg"
| "exn_str w e = exn_text w e"

text \<open>The network calls and browser actions a search or a login issues, in order.\<close>

datatype effect =
    ChatCompletion perplexity_payload
  | Esearch esearch_params
  | Esummary string
  | Launch
  | Goto string
  | Fill string string
  | Click string

section \<open>Grounded-answer search (Perplexity)\<close>

definition system_prompts :: "bool \<Rightarrow> (string \<times> string) list" where
  "system_prompts medical_focus =
     [(''sonar-pro'',
       if medical_focus then
         ''You are a medical education researcher. Provide comprehensive, evidence-based information '' @
         ''with specific citations. Focus on current guidelines, landmark studies, and clinical pearls. '' @
         ''Always cite sources with author, year, and journal/guideline name.''
       else ''You are a helpful research assistant.''),
      (''sonar-reasoning-pro'',
       if medical_focus then
         ''You are an expert clinical educator. Think through this medical topic step-by-step, '' @
         ''explaining your clinical reasoning. Consider differential diagnoses, pathophysiology, '' @
         ''and evidence-based management. Cite guidelines and landmark trials. Show your reasoning process.''
       else ''You are an analytical researcher. Think step-by-step and show your reasoning.''),
      (''sonar-deep-research'',
       if medical_focus then
         ''You are a medical literature researcher conducting an exhaustive review. Synthesize '' @
         ''information from multiple high-quality sources including guidelines, systematic reviews, '' @
         ''and landmark trials. Provide a comprehensive analysis with extensive citations.''
       else ''Conduct exhaustive research and provide comprehensive synthesis.'')]"

text \<open>\<^verbatim>\<open>system_prompts.get(model, system_prompts["sonar-pro"])\<close>; the default is
  evaluated first, and its key is in the dict.\<close>

definition system_prompt :: "bool \<Rightarrow> string \<Rightarrow> string" where
  "system_prompt medical_focus model =
     (case map_of (system_prompts medical_focus) ''sonar-pro'' of
        None \<Rightarrow> []
      | Some dflt \<Rightarrow>
          (case map_of (system_prompts medical_focus) model of None \<Rightarrow> dflt | Some p \<Rightarrow> p))"

definition temperature :: "string \<Rightarrow> rat" where
  "temperature model = (if model = ''sonar-reasoning-pro'' then 1 / 10 else 2 / 10)"

definition perplexity_request :: "string \<Rightarrow> string \<Rightarrow> bool \<Rightarrow> string \<Rightarrow> perplexity_payload" where
  "perplexity_request api_key q medical_focus model =
     \<lparr>pp_bearer = api_key, pp_model = model,
      pp_system = system_prompt medical_focus model, pp_user = q,
      pp_temperature = temperature model, pp_return_citations = True,
      pp_search_domain_filter = (if medical_focus then Some MEDICAL_DOMAINS else None)\<rparr>"

text \<open>One element of the \<^verbatim>\<open>citations\<close> comprehension.\<close>

definition perplexity_citation :: "nat \<Rightarrow> json \<Rightarrow> exn + citation" where
  "perplexity_citation i c =
     and_then (case c of JStr s \<Rightarrow> Inr c | _ \<Rightarrow> py_get c ''title'' (JStr (''Source '' @ str_nat (i + 1))))
       (\<lambda>t. and_then (case c of JStr s \<Rightarrow> Inr c | _ \<Rightarrow> py_get c ''url'' (JStr []))
       (\<lambda>u. and_then (as_str t)
       (\<lambda>t'. and_then (as_opt_str u)
       (\<lambda>u'. Inr \<lparr>cit_id = ''pplx-'' @ str_nat i, title = t', authors = None,
                  source = ''Perplexity'', year = None, url = u', pmid = None,
                  snippet = None\<rparr>))))"

definition perplexity_response :: "world \<Rightarrow> string \<Rightarrow> json \<Rightarrow> exn + search_response" where
  "perplexity_response w q data =
     and_then (py_get data ''choices'' (JList [JDict []]))
       (\<lambda>choices. and_then (py_index0 choices)
       (\<lambda>choice. and_then (py_get choice ''message'' (JDict []))
       (\<lambda>message. and_then (py_get message ''content'' (JStr []))
       (\<lambda>cont. and_then (py_get data ''citations'' (JList []))
       (\<lambda>raw_citations. and_then (py_iter raw_citations)
       (\<lambda>raws. and_then (enumerate_map perplexity_citation 0 raws)
       (\<lambda>cits. and_then (as_str cont)
       (\<lambda>cont'. Inr \<lparr>provider = ''perplexity'', resp_query = q, content = cont',
                      citations = cits, timestamp = now w\<rparr>))))))))"

text \<open>What \<^verbatim>\<open>search_perplexity\<close> does with the answer to its request.\<close>

definition perplexity_outcome :: "world \<Rightarrow> string \<Rightarrow> http_result \<Rightarrow> exn + search_response" where
  "perplexity_outcome w q answer =
     (case answer of
        Fails msg \<Rightarrow> Inl (HTTPException 500 (''Perplexity request failed: '' @ msg))
      | Responds status body \<Rightarrow>
          if status \<noteq> 200 then Inl (HTTPException status ''Perplexity API error'')
          else (case body of
                  None \<Rightarrow> Inl JSONDecodeError
                | Some data \<Rightarrow> perplexity_response w q data))"

text \<open>\<^verbatim>\<open>search_perplexity\<close>, with the call it issues.\<close>

definition search_perplexity_run ::
  "world \<Rightarrow> string \<Rightarrow> bool \<Rightarrow> string \<Rightarrow> effect list \<times> (exn + search_response)" where
  "search_perplexity_run w q medical_focus model =
     (case py_or (getenv w ''PERPLEXITY_API_KEY'') (getenv w ''VITE_PERPLEXITY_API_KEY'') of
        None \<Rightarrow> ([], Inl (HTTPException 400 ''PERPLEXITY_API_KEY not configured''))
      | Some api_key \<Rightarrow>
          if api_key = [] then ([], Inl (HTTPException 400 ''PERPLEXITY_API_KEY not configured''))
          else
            (let payload = perplexity_request api_key q medical_focus model
             in ([ChatCompletion payload], perplexity_outcome w q (perplexity_api w payload))))"

definition search_perplexity :: "world \<Rightarrow> string \<Rightarrow> bool \<Rightarrow> string \<Rightarrow> exn + search_response" where
  "search_perplexity w q medical_focus model = snd (search_perplexity_run w q medical_focus model)"

text \<open>The endpoint \<^verbatim>\<open>POST /search/perplexity\<close>.\<close>

definition search_perplexity_endpoint :: "world \<Rightarrow> search_request \<Rightarrow> exn + search_response" where
  "search_perplexity_endpoint w request =
     search_perplexity w (query request) True (perplexity_model request)"

section \<open>Semantic search (Exa) and keyword search (Tavily)\<close>

text \<open>\<^verbatim>\<open>r.get("url", "").split("/")[2] if r.get("url") else name\<close>: the third
  piece of the URL cut at the slashes, an \<open>IndexError\<close> when there are fewer than three
  pieces.\<close>

definition url_host :: "string \<Rightarrow> json \<Rightarrow> exn + json" where
  "url_host name r =
     and_then (py_get r ''url'' JNull)
       (\<lambda>u. if truthy u then
               (case u of
                  JStr s \<Rightarrow>
                    (let parts = split_on CHR ''/'' s
                     in if 2 < length parts then Inr (JStr (parts ! 2)) else Inl IndexError)
                | _ \<Rightarrow> Inl AttributeError)
             else Inr (JStr name))"

text \<open>\<^verbatim>\<open>r.get("highlights", [""])[0] if r.get("highlights") else dflt\<close>.\<close>

definition first_highlight :: "json \<Rightarrow> exn + json \<Rightarrow> exn + json" where
  "first_highlight r dflt =
     and_then (py_get r ''highlights'' JNull)
       (\<lambda>h. if truthy h then py_index0 h else dflt)"

definition exa_citation :: "nat \<Rightarrow> json \<Rightarrow> exn + citation" where
  "exa_citation i r =
     and_then (py_get r ''title'' (JStr ''Untitled''))
       (\<lambda>t. and_then (url_host ''Exa'' r)
       (\<lambda>src. and_then (py_get r ''url'' (JStr []))
       (\<lambda>u. and_then (first_highlight r (and_then (py_get r ''text'' (JStr [])) (py_slice 300)))
       (\<lambda>snip. and_then (as_str t)
       (\<lambda>t'. and_then (as_str src)
       (\<lambda>src'. and_then (as_opt_str u)
       (\<lambda>u'. and_then (as_opt_str snip)
       (\<lambda>snip'. Inr \<lparr>cit_id = ''exa-'' @ str_nat i, title = t', authors = None,
                     source = src', year = None, url = u', pmid = None,
                     snippet = snip'\<rparr>))))))))"

text \<open>One block of the combined content:
  \<^verbatim>\<open>f"## {title}\n{text}"\<close>, the text defaulting to the first highlight.\<close>

definition exa_block :: "world \<Rightarrow> json \<Rightarrow> exn + string" where
  "exa_block w r =
     and_then (py_get r ''title'' (JStr ''Untitled''))
       (\<lambda>t. and_then (first_highlight r (Inr (JStr [])))
       (\<lambda>dflt. and_then (py_get r ''text'' dflt)
       (\<lambda>txt. Inr (''## '' @ py_str w t @ newline @ py_str w txt))))"

definition exa_response :: "world \<Rightarrow> string \<Rightarrow> json \<Rightarrow> exn + search_response" where
  "exa_response w q data =
     and_then (py_get data ''results'' (JList []))
       (\<lambda>res. and_then (py_iter res)
       (\<lambda>results. and_then (enumerate_map exa_citation 0 results)
       (\<lambda>cits. and_then (enumerate_map (\<lambda>i. exa_block w) 0 results)
       (\<lambda>blocks. Inr \<lparr>provider = ''exa'', resp_query = q, content = join divider blocks,
                       citations = cits, timestamp = now w\<rparr>))))"

definition exa_request :: "string \<Rightarrow> string \<Rightarrow> int \<Rightarrow> exa_payload" where
  "exa_request api_key q maxr =
     \<lparr>ex_bearer = api_key, ex_query = ''medical education '' @ q,
      ex_numResults = maxr, ex_includeDomains = MEDICAL_DOMAINS\<rparr>"

definition search_exa :: "world \<Rightarrow> string \<Rightarrow> int \<Rightarrow> exn + search_response" where
  "search_exa w q maxr =
     (case py_or (getenv w ''EXA_API_KEY'') (getenv w ''VITE_EXA_API_KEY'') of
        None \<Rightarrow> Inl (HTTPException 400 ''EXA_API_KEY not configured'')
      | Some api_key \<Rightarrow>
          if api_key = [] then Inl (HTTPException 400 ''EXA_API_KEY not configured'')
          else
            (case exa_api w (exa_request api_key q maxr) of
               Fails msg \<Rightarrow> Inl (HTTPException 500 (''Exa request failed: '' @ msg))
             | Responds status body \<Rightarrow>
                 if status \<noteq> 200 then Inl (HTTPException status ''Exa API error'')
                 else (case body of
                         None \<Rightarrow> Inl JSONDecodeError
                       | Some data \<Rightarrow> exa_response w q data)))"

definition tavily_citation :: "nat \<Rightarrow> json \<Rightarrow> exn + citation" where
  "tavily_citation i r =
     and_then (py_get r ''title'' (JStr ''Untitled''))
       (\<lambda>t. and_then (url_host ''Tavily'' r)
       (\<lambda>src. and_then (py_get r ''url'' (JStr []))
       (\<lambda>u. and_then (and_then (py_get r ''content'' (JStr [])) (py_slice 300))
       (\<lambda>snip. and_then (as_str t)
       (\<lambda>t'. and_then (as_str src)
       (\<lambda>src'. and_then (as_opt_str u)
       (\<lambda>u'. and_then (as_opt_str snip)
       (\<lambda>snip'. Inr \<lparr>cit_id = ''tavily-'' @ str_nat i, title = t', authors = None,
                     source = src', year = None, url = u', pmid = None,
                     snippet = snip'\<rparr>))))))))"

definition tavily_response :: "world \<Rightarrow> string \<Rightarrow> json \<Rightarrow> exn + search_response" where
  "tavily_response w q data =
     and_then (py_get data ''results'' (JList []))
       (\<lambda>res. and_then (py_get data ''answer'' (JStr []))
       (\<lambda>answer. and_then (py_iter res)
       (\<lambda>results. and_then (enumerate_map tavily_citation 0 results)
       (\<lambda>cits. and_then (as_str answer)
       (\<lambda>answer'. Inr \<lparr>provider = ''tavily'', resp_query = q, content = answer',
                        citations = cits, timestamp = now w\<rparr>)))))"

definition tavily_request :: "string \<Rightarrow> string \<Rightarrow> int \<Rightarrow> tavily_payload" where
  "tavily_request api_key q maxr =
     \<lparr>tv_api_key = api_key, tv_query = q @ '' medical guidelines evidence-based'',
      tv_include_domains = MEDICAL_DOMAINS, tv_max_results = maxr\<rparr>"

definition search_tavily :: "world \<Rightarrow> string \<Rightarrow> int \<Rightarrow> exn + search_response" where
  "search_tavily w q maxr =
     (case py_or (getenv w ''TAVILY_API_KEY'') (getenv w ''VITE_TAVILY_API_KEY'') of
        None \<Rightarrow> Inl (HTTPException 400 ''TAVILY_API_KEY not configured'')
      | Some api_key \<Rightarrow>
          if api_key = [] then Inl (HTTPException 400 ''TAVILY_API_KEY not configured'')
          else
            (case tavily_api w (tavily_request api_key q maxr) of
               Fails msg \<Rightarrow> Inl (HTTPException 500 (''Tavily request failed: '' @ msg))
             | Responds status body \<Rightarrow>
                 if status \<noteq> 200 then Inl (HTTPException status ''Tavily API error'')
                 else (case body of
                         None \<Rightarrow> Inl JSONDecodeError
                       | Some data \<Rightarrow> tavily_response w q data)))"

section \<open>Literature search (PubMed)\<close>

text \<open>The whole body of \<^verbatim>\<open>search_pubmed\<close> is inside
  \<^verbatim>\<open>try: ... except Exception as e: raise HTTPException(500, ...)\<close>.\<close>

definition failed_500 :: "world \<Rightarrow> string \<Rightarrow> exn + 'a \<Rightarrow> exn + 'a" where
  "failed_500 w what r =
     (case r of Inl e \<Rightarrow> Inl (HTTPException 500 (what @ exn_str w e)) | Inr x \<Rightarrow> Inr x)"

fun http_json :: "http_result \<Rightarrow> exn + json" where
  "http_json (Fails msg) = Inl (RequestError msg)"
| "http_json (Responds status None) = Inl JSONDecodeError"
| "http_json (Responds status (Some data)) = Inr data"

text \<open>The identifiers as \<^verbatim>\<open>",".join(ids)\<close> and \<^verbatim>\<open>for pmid in ids\<close> read them:
  every element has to be a string.\<close>

fun strings_of :: "json list \<Rightarrow> exn + string list" where
  "strings_of [] = Inr []"
| "strings_of (JStr s # xs) = and_then (strings_of xs) (\<lambda>ss. Inr (s # ss))"
| "strings_of (x # xs) = Inl TypeError"

definition id_strings :: "json \<Rightarrow> exn + string list" where
  "id_strings ids = and_then (py_iter ids) strings_of"

text \<open>\<^verbatim>\<open>s.split()\<close>: the pieces between runs of white space.\<close>

definition is_space :: "char \<Rightarrow> bool" where
  "is_space c =
     (c \<in> set [CHR '' '', CHR 0x09, CHR 0x0A, CHR 0x0B, CHR 0x0C, CHR 0x0D,
                CHR 0x1C, CHR 0x1D, CHR 0x1E, CHR 0x1F])"

fun split_ws :: "string \<Rightarrow> string list" where
  "split_ws [] = []"
| "split_ws (c # cs) =
     (if is_space c then split_ws cs
      else (case cs of
              [] \<Rightarrow> [[c]]
            | d # ds \<Rightarrow>
                if is_space d then [c] # split_ws cs
                else (case split_ws cs of [] \<Rightarrow> [[c]] | p # ps \<Rightarrow> (c # p) # ps)))"

definition isdigit :: "string \<Rightarrow> bool" where
  "isdigit s = (s \<noteq> [] \<and> list_all (\<lambda>c. 48 \<le> (of_char c :: nat) \<and> (of_char c :: nat) \<le> 57) s)"

definition int_of_digits :: "string \<Rightarrow> int" where
  "int_of_digits s = foldl (\<lambda>acc c. 10 * acc + (of_char c - 48)) 0 s"

text \<open>\<^verbatim>\<open>int(pubdate.split()[0]) if pubdate and pubdate.split()[0].isdigit() else None\<close>.\<close>

definition pubmed_year :: "json \<Rightarrow> exn + int option" where
  "pubmed_year pubdate =
     (if truthy pubdate then
        (case pubdate of
           JStr s \<Rightarrow>
             (case split_ws s of
                [] \<Rightarrow> Inl IndexError
              | first # rest \<Rightarrow> Inr (if isdigit first then Some (int_of_digits first) else None))
         | _ \<Rightarrow> Inl AttributeError)
      else Inr None)"

definition author_name :: "nat \<Rightarrow> json \<Rightarrow> exn + json" where
  "author_name i a = py_get a ''name'' (JStr [])"

text \<open>The body of \<^verbatim>\<open>for pmid in ids\<close> for an identifier whose summary
  entry is a non-empty dict: the citation and its content block.\<close>

definition pubmed_entry :: "world \<Rightarrow> string \<Rightarrow> json \<Rightarrow> exn + citation \<times> string" where
  "pubmed_entry w p article =
     and_then (py_get article ''title'' (JStr ''Untitled''))
       (\<lambda>t. and_then (py_get article ''authors'' (JList []))
       (\<lambda>au. and_then (py_slice 3 au)
       (\<lambda>au3. and_then (py_iter au3)
       (\<lambda>aus. and_then (enumerate_map author_name 0 aus)
       (\<lambda>names. and_then (py_get article ''source'' (JStr []))
       (\<lambda>src. and_then (py_get article ''pubdate'' (JStr []))
       (\<lambda>pubdate. and_then (pubmed_year pubdate)
       (\<lambda>y. and_then (as_str t)
       (\<lambda>t'. and_then (case strings_of names of Inl e \<Rightarrow> Inl ValidationError | Inr ss \<Rightarrow> Inr ss)
       (\<lambda>names'. and_then (as_str src)
       (\<lambda>src'.
          Inr (\<lparr>cit_id = ''pubmed-'' @ p, title = t', authors = Some names',
                source = src', year = y,
                url = Some (''https://pubmed.ncbi.nlm.nih.gov/'' @ p @ ''/''),
                pmid = Some p, snippet = None\<rparr>,
               ''**'' @ t' @ ''**'' @ newline @
               (if names' \<noteq> [] then join '', '' names' @ '' et al.'' else []) @
               '' - '' @ src' @ '' ('' @ py_str w pubdate @ '')''))))))))))))"

text \<open>\<^verbatim>\<open>article = result_data.get(pmid, {})\<close> and
  \<^verbatim>\<open>if article and isinstance(article, dict)\<close>.\<close>

definition pubmed_article :: "world \<Rightarrow> json \<Rightarrow> string \<Rightarrow> exn + (citation \<times> string) option" where
  "pubmed_article w result_data p =
     and_then (py_get result_data p (JDict []))
       (\<lambda>article.
          case article of
            JDict kvs \<Rightarrow>
              if kvs = [] then Inr None
              else and_then (pubmed_entry w p article) (\<lambda>x. Inr (Some x))
          | _ \<Rightarrow> Inr None)"

fun pubmed_articles :: "world \<Rightarrow> json \<Rightarrow> string list \<Rightarrow> exn + (citation \<times> string) list" where
  "pubmed_articles w result_data [] = Inr []"
| "pubmed_articles w result_data (p # ps) =
     (case pubmed_article w result_data p of
        Inl e \<Rightarrow> Inl e
      | Inr entry \<Rightarrow>
          (case pubmed_articles w result_data ps of
             Inl e \<Rightarrow> Inl e
           | Inr rest \<Rightarrow> Inr (case entry of None \<Rightarrow> rest | Some x \<Rightarrow> x # rest)))"

definition pubmed_response :: "world \<Rightarrow> string \<Rightarrow> string list \<Rightarrow> json \<Rightarrow> exn + search_response" where
  "pubmed_response w q pmids fetch_data =
     and_then (py_get fetch_data ''result'' (JDict []))
       (\<lambda>result_data. and_then (pubmed_articles w result_data pmids)
       (\<lambda>entries. Inr \<lparr>provider = ''pubmed'', resp_query = q,
                        content = join (newline @ newline) (map snd entries),
                        citations = map fst entries, timestamp = now w\<rparr>))"

definition no_results :: "world \<Rightarrow> string \<Rightarrow> search_response" where
  "no_results w q =
     \<lparr>provider = ''pubmed'', resp_query = q, content = ''No results found.'',
      citations = [], timestamp = now w\<rparr>"

definition pubmed_ids :: "json \<Rightarrow> exn + json" where
  "pubmed_ids search_data =
     and_then (py_get search_data ''esearchresult'' (JDict []))
       (\<lambda>r. py_get r ''idlist'' (JList []))"


text \<open>\<^verbatim>\<open>search_pubmed\<close>, with the calls it issues.\<close>

definition search_pubmed_run ::
  "world \<Rightarrow> string \<Rightarrow> int \<Rightarrow> effect list \<times> (exn + search_response)" where
  "search_pubmed_run w q maxr =
     (let params = \<lparr>es_term = q, es_retmax = maxr\<rparr>;
          failed = failed_500 w ''PubMed search failed: ''
      in case and_then (http_json (esearch w params)) pubmed_ids of
           Inl e \<Rightarrow> ([Esearch params], failed (Inl e))
         | Inr ids \<Rightarrow>
             if \<not> truthy ids then ([Esearch params], Inr (no_results w q))
             else
               (case id_strings ids of
                  Inl e \<Rightarrow> ([Esearch params], failed (Inl e))
                | Inr pmids \<Rightarrow>
                    ([Esearch params, Esummary (join '','' pmids)],
                     failed (and_then (http_json (esummary w (join '','' pmids)))
                               (pubmed_response w q pmids)))))"

definition search_pubmed :: "world \<Rightarrow> string \<Rightarrow> int \<Rightarrow> exn + search_response" where
  "search_pubmed w q maxr = snd (search_pubmed_run w q maxr)"

section \<open>The browser session\<close>

text \<open>
  The fields of \<^verbatim>\<open>MedicalScraper\<close> that the code tests: whether \<^verbatim>\<open>self.browser\<close> and
  \<^verbatim>\<open>self.page\<close> are set, and the two session flags.
\<close>

record scraper =
  browser :: bool
  page :: bool
  logged_in_uptodate :: bool
  logged_in_mksap :: bool

text \<open>\<^verbatim>\<open>MedicalScraper.__init__\<close>.\<close>

definition init_scraper :: scraper where
  "init_scraper = \<lparr>browser = False, page = False, logged_in_uptodate = False, logged_in_mksap = False\<rparr>"

text \<open>What the HTML parser finds in a search hit: the text of its first heading, link
  or span, whether the hit is itself a link, its own \<^verbatim>\<open>href\<close>, the \<^verbatim>\<open>href\<close> of the first
  link inside it, its text, and the text of its enclosing block.\<close>

record hit =
  title_elem :: "string option"
  is_anchor :: bool
  href :: "string option"
  inner_href :: "string option"
  hit_text :: string
  parent_text :: "string option"

text \<open>A parsed page, by the queries the code makes on it: the CSS selections, the
  links into \<^verbatim>\<open>/contents/\<close>, the MKSAP section links, and the rendering of the three
  candidates for the main content of an article.\<close>

record soup =
  select :: "string \<Rightarrow> hit list"
  content_links :: "hit list"
  section_links :: "hit list"
  topic_content :: "string option"
  article_tag :: "string option"
  main_tag :: "string option"

datatype launch_result = LaunchFails | ContextFails | Launched

text \<open>
  The browser automation and the sites behind it. \<open>navigate k u\<close> is the \<open>k\<close>-th page load
  of a call (\<^verbatim>\<open>goto\<close>, \<^verbatim>\<open>wait_for_load_state\<close>, \<^verbatim>\<open>content\<close>) with the page parsed, or
  the exception it raises; \<open>markdown\<close> is the HTML-to-text conversion.
\<close>

record site =
  PLAYWRIGHT_AVAILABLE :: bool
  SCRAPING_LIBS_AVAILABLE :: bool
  launch :: launch_result
  navigate :: "nat \<Rightarrow> string \<Rightarrow> exn + soup"
  markdown :: "string \<Rightarrow> exn + string"

definition start_browser :: "site \<Rightarrow> scraper \<Rightarrow> bool \<times> scraper \<times> effect list" where
  "start_browser st s =
     (if \<not> PLAYWRIGHT_AVAILABLE st then (False, s, [])
      else if browser s then (True, s, [])
      else (case launch st of
              LaunchFails \<Rightarrow> (False, s, [Launch])
            | ContextFails \<Rightarrow> (False, s\<lparr>browser := True\<rparr>, [Launch])
            | Launched \<Rightarrow> (True, s\<lparr>browser := True, page := True\<rparr>, [Launch])))"

text \<open>Loading and parsing a page: \<^verbatim>\<open>self.page\<close> may be unset, and the parser may be
  missing.\<close>

text \<open>The navigation that a page load issues: none when \<^verbatim>\<open>self.page\<close> is unset, since
  \<^verbatim>\<open>self.page.goto\<close> raises before the browser is asked.\<close>

definition navigation :: "scraper \<Rightarrow> string \<Rightarrow> effect list" where
  "navigation s u = (if page s then [Goto u] else [])"

definition load_page :: "site \<Rightarrow> scraper \<Rightarrow> nat \<Rightarrow> string \<Rightarrow> exn + soup" where
  "load_page st s k u =
     (if \<not> page s then Inl AttributeError
      else and_then (navigate st k u)
             (\<lambda>sp. if SCRAPING_LIBS_AVAILABLE st then Inr sp else Inl NameError))"

definition replace_spaces :: "string \<Rightarrow> string" where
  "replace_spaces q = map (\<lambda>c. if c = CHR '' '' then CHR ''+'' else c) q"

definition absolute_url :: "string \<Rightarrow> string \<Rightarrow> string" where
  "absolute_url base u = (if u \<noteq> [] \<and> take 4 u \<noteq> ''http'' then base @ u else u)"

section \<open>Authenticated-content search (UpToDate, MKSAP)\<close>

definition uptodate_title :: "nat \<Rightarrow> hit \<Rightarrow> string" where
  "uptodate_title i h =
     (case title_elem h of Some t \<Rightarrow> t | None \<Rightarrow> ''UpToDate Result '' @ str_nat (i + 1))"

definition uptodate_url :: "hit \<Rightarrow> string" where
  "uptodate_url h =
     absolute_url ''https://www.uptodate.com''
       (case (if is_anchor h then href h else inner_href h) of None \<Rightarrow> [] | Some u \<Rightarrow> u)"

definition uptodate_citation :: "nat \<Rightarrow> hit \<Rightarrow> citation" where
  "uptodate_citation i h =
     \<lparr>cit_id = ''uptodate-'' @ str_nat i, title = take 200 (uptodate_title i h), authors = None,
      source = ''UpToDate'', year = None, url = Some (uptodate_url h), pmid = None,
      snippet = Some (take 300 (hit_text h))\<rparr>"

definition uptodate_part :: "nat \<Rightarrow> hit \<Rightarrow> string" where
  "uptodate_part i h = ''**'' @ uptodate_title i h @ ''**'' @ newline @ take 300 (hit_text h)"

fun enumerate_from :: "nat \<Rightarrow> 'a list \<Rightarrow> (nat \<times> 'a) list" where
  "enumerate_from i [] = []"
| "enumerate_from i (x # xs) = (i, x) # enumerate_from (Suc i) xs"

definition result_selectors :: "string list" where
  "result_selectors =
     [''div[class*='' @ quoted ''search-result'' @ '']'',
      ''div[class*='' @ quoted ''result-item'' @ '']'',
      ''a[class*='' @ quoted ''search-result'' @ '']'',
      ''li[class*='' @ quoted ''search-result'' @ '']'']"

text \<open>\<^verbatim>\<open>for selector in result_selectors: results = soup.select(selector); if results: break\<close>.\<close>

fun first_selection :: "soup \<Rightarrow> string list \<Rightarrow> hit list" where
  "first_selection sp [] = []"
| "first_selection sp (sel # sels) =
     (if select sp sel \<noteq> [] then select sp sel
      else if sels = [] then select sp sel else first_selection sp sels)"

definition uptodate_hits :: "soup \<Rightarrow> int \<Rightarrow> hit list" where
  "uptodate_hits sp maxr =
     (let results = first_selection sp result_selectors;
          results = (if results = [] then py_take maxr (content_links sp) else results)
      in py_take maxr results)"

text \<open>The second fetch: the article behind the first hit, cut to 8000 characters; the
  empty string when there is no main content.\<close>

definition article_content :: "site \<Rightarrow> scraper \<Rightarrow> string \<Rightarrow> exn + string" where
  "article_content st s u =
     and_then (load_page st s 1 u)
       (\<lambda>sp. case (case topic_content sp of
                      Some m \<Rightarrow> Some m
                    | None \<Rightarrow> (case article_tag sp of Some m \<Rightarrow> Some m | None \<Rightarrow> main_tag sp)) of
                None \<Rightarrow> Inr []
              | Some m \<Rightarrow> and_then (markdown st m) (\<lambda>md. Inr (take 8000 md)))"

definition first_content :: "site \<Rightarrow> scraper \<Rightarrow> citation list \<Rightarrow> string \<times> effect list" where
  "first_content st s cits =
     (case cits of
        [] \<Rightarrow> ([], [])
      | c # cs \<Rightarrow>
          (case url c of
             None \<Rightarrow> ([], [])
           | Some u \<Rightarrow>
               if u = [] then ([], [])
               else (case article_content st s u of
                       Inl e \<Rightarrow> ([], navigation s u)
                     | Inr md \<Rightarrow> (md, navigation s u))))"

definition uptodate_search_url :: "string \<Rightarrow> string" where
  "uptodate_search_url q =
     ''https://www.uptodate.com/contents/search?search='' @ replace_spaces q @ ''&source=SEARCH_RESULT''"

definition search_uptodate ::
  "site \<Rightarrow> world \<Rightarrow> scraper \<Rightarrow> string \<Rightarrow> int \<Rightarrow> (exn + search_response) \<times> scraper \<times> effect list" where
  "search_uptodate st w s q maxr =
     (if \<not> logged_in_uptodate s then
        (Inl (HTTPException 401 ''Not logged into UpToDate. Please login first.''), s, [])
      else
        (case start_browser st s of
           (ok, s1, started) \<Rightarrow>
             if \<not> ok then (Inl (HTTPException 500 ''Browser not available''), s1, started)
             else
               (case load_page st s1 0 (uptodate_search_url q) of
                  Inl e \<Rightarrow>
                    (failed_500 w ''UpToDate search failed: '' (Inl e), s1,
                     started @ navigation s1 (uptodate_search_url q))
                | Inr sp \<Rightarrow>
                    (let results = enumerate_from 0 (uptodate_hits sp maxr);
                         cits = map (\<lambda>(i, h). uptodate_citation i h) results;
                         content_parts = map (\<lambda>(i, h). uptodate_part i h) results;
                         (first, fetched) = first_content st s1 cits;
                         combined_content =
                           (if first \<noteq> [] then first else join divider content_parts)
                     in (Inr \<lparr>provider = ''uptodate'', resp_query = q,
                              content = combined_content, citations = cits,
                              timestamp = now w\<rparr>,
                         s1, started @ navigation s1 (uptodate_search_url q) @ fetched)))))"

definition mksap_url :: "hit \<Rightarrow> string" where
  "mksap_url h =
     absolute_url ''https://mksap19.acponline.org'' (case href h of None \<Rightarrow> [] | Some u \<Rightarrow> u)"

definition mksap_snippet :: "hit \<Rightarrow> string" where
  "mksap_snippet h =
     (case parent_text h of Some t \<Rightarrow> take 300 t | None \<Rightarrow> take 200 (hit_text h))"

definition mksap_citation :: "nat \<Rightarrow> hit \<Rightarrow> citation" where
  "mksap_citation i h =
     \<lparr>cit_id = ''mksap-'' @ str_nat i, title = take 200 (hit_text h), authors = None,
      source = ''MKSAP 19'', year = None, url = Some (mksap_url h), pmid = None,
      snippet = Some (mksap_snippet h)\<rparr>"

definition mksap_part :: "hit \<Rightarrow> string" where
  "mksap_part h = ''**'' @ take 200 (hit_text h) @ ''**'' @ newline @ mksap_snippet h"

definition mksap_search_url :: "string \<Rightarrow> string" where
  "mksap_search_url q = ''https://mksap19.acponline.org/search?q='' @ replace_spaces q"

definition search_mksap ::
  "site \<Rightarrow> world \<Rightarrow> scraper \<Rightarrow> string \<Rightarrow> int \<Rightarrow> (exn + search_response) \<times> scraper \<times> effect list" where
  "search_mksap st w s q maxr =
     (if \<not> logged_in_mksap s then
        (Inl (HTTPException 401 ''Not logged into MKSAP. Please login first.''), s, [])
      else
        (case start_browser st s of
           (ok, s1, started) \<Rightarrow>
             if \<not> ok then (Inl (HTTPException 500 ''Browser not available''), s1, started)
             else
               (case load_page st s1 0 (mksap_search_url q) of
                  Inl e \<Rightarrow>
                    (failed_500 w ''MKSAP search failed: '' (Inl e), s1,
                     started @ navigation s1 (mksap_search_url q))
                | Inr sp \<Rightarrow>
                    (let results = enumerate_from 0 (py_take maxr (section_links sp))
                     in (Inr \<lparr>provider = ''mksap'', resp_query = q,
                              content = join divider (map (\<lambda>(i, h). mksap_part h) results),
                              citations = map (\<lambda>(i, h). mksap_citation i h) results,
                              timestamp = now w\<rparr>,
                         s1, started @ navigation s1 (mksap_search_url q))))))"

section \<open>Login\<close>

text \<open>
  The login page as the code drives it: opening it (\<^verbatim>\<open>goto\<close> and
  \<^verbatim>\<open>wait_for_load_state\<close>), the page operations by selector, the final wait for the
  network to settle, and the address the browser ends on. Every operation may raise.
\<close>

record login_page =
  open_login :: "string \<Rightarrow> exn + unit"
  is_visible :: "string \<Rightarrow> exn + bool"
  click :: "string \<Rightarrow> exn + unit"
  wait_for_selector :: "string \<Rightarrow> exn + unit"
  fill :: "string \<Rightarrow> string \<Rightarrow> exn + unit"
  press :: "string \<Rightarrow> string \<Rightarrow> exn + unit"
  locator_count :: "string \<Rightarrow> exn + nat"
  settle :: "exn + unit"
  current_url :: string

text \<open>The body of the \<^verbatim>\<open>try\<close> block of \<^verbatim>\<open>login_uptodate\<close>.\<close>

definition uptodate_steps :: "login_page \<Rightarrow> scraper \<Rightarrow> string \<Rightarrow> string \<Rightarrow> exn + unit" where
  "uptodate_steps pg s username password =
     (if \<not> page s then Inl AttributeError
      else
        and_then (open_login pg ''https://www.uptodate.com/login'')
          (\<lambda>_. and_then (is_visible pg ''button#signInAnotherWayBtn'')
          (\<lambda>visible. and_then (if visible then click pg ''button#signInAnotherWayBtn'' else Inr ())
          (\<lambda>_. and_then (wait_for_selector pg ''input#userName'')
          (\<lambda>_. and_then (fill pg ''input#userName'' username)
          (\<lambda>_. and_then (press pg ''input#userName'' ''Enter'')
          (\<lambda>_. and_then (wait_for_selector pg ''input#password'')
          (\<lambda>_. and_then (fill pg ''input#password'' password)
          (\<lambda>_. and_then (press pg ''input#password'' ''Enter'')
          (\<lambda>_. settle pg))))))))))"

definition login_uptodate :: "site \<Rightarrow> login_page \<Rightarrow> scraper \<Rightarrow> string \<Rightarrow> string \<Rightarrow> bool \<times> scraper" where
  "login_uptodate st pg s username password =
     (case start_browser st s of
        (ok, s1, started) \<Rightarrow>
          if \<not> ok then (False, s1)
          else (case uptodate_steps pg s1 username password of
                  Inl e \<Rightarrow> (False, s1)
                | Inr _ \<Rightarrow> (True, s1\<lparr>logged_in_uptodate := True\<rparr>)))"

definition username_selectors :: "string list" where
  "username_selectors =
     [''input[name='' @ quoted ''username'' @ '']'',
      ''input[id='' @ quoted ''username'' @ '']'',
      ''input[name='' @ quoted ''email'' @ '']'',
      ''input[id='' @ quoted ''email'' @ '']'',
      ''input[type='' @ quoted ''email'' @ '']'',
      ''input[name*='' @ quoted ''sername'' @ '']'',
      ''input[id*='' @ quoted ''sername'' @ '']'']"

definition password_selectors :: "string list" where
  "password_selectors =
     [''input[name='' @ quoted ''password'' @ '']'',
      ''input[id='' @ quoted ''password'' @ '']'',
      ''input[type='' @ quoted ''password'' @ '']'',
      ''input[name*='' @ quoted ''assword'' @ '']'',
      ''input[id*='' @ quoted ''assword'' @ '']'']"

definition submit_selectors :: "string list" where
  "submit_selectors =
     [''button[type='' @ quoted ''submit'' @ '']'',
      ''input[type='' @ quoted ''submit'' @ '']'',
      ''button:has-text('' @ quoted ''Sign In'' @ '')'',
      ''button:has-text('' @ quoted ''Log In'' @ '')'',
      ''button:has-text('' @ quoted ''Login'' @ '')'']"

text \<open>
  \<^verbatim>\<open>for selector in selectors: try: if count > 0: fill; break  except: continue\<close>.
  The result is what was done on the page: nothing when no selector matched.
\<close>

fun fill_first :: "login_page \<Rightarrow> string \<Rightarrow> string list \<Rightarrow> effect list" where
  "fill_first pg v [] = []"
| "fill_first pg v (sel # sels) =
     (case locator_count pg sel of
        Inl e \<Rightarrow> fill_first pg v sels
      | Inr n \<Rightarrow>
          if 0 < n then
            (case fill pg sel v of Inl e \<Rightarrow> fill_first pg v sels | Inr _ \<Rightarrow> [Fill sel v])
          else fill_first pg v sels)"

fun click_first :: "login_page \<Rightarrow> string list \<Rightarrow> effect list" where
  "click_first pg [] = []"
| "click_first pg (sel # sels) =
     (case locator_count pg sel of
        Inl e \<Rightarrow> click_first pg sels
      | Inr n \<Rightarrow>
          if 0 < n then
            (case click pg sel of Inl e \<Rightarrow> click_first pg sels | Inr _ \<Rightarrow> [Click sel])
          else click_first pg sels)"

text \<open>\<^verbatim>\<open>needle in s\<close> and \<^verbatim>\<open>s.lower()\<close> (on ASCII letters).\<close>

fun starts_with :: "string \<Rightarrow> string \<Rightarrow> bool" where
  "starts_with [] s = True"
| "starts_with (c # cs) [] = False"
| "starts_with (c # cs) (d # ds) = (c = d \<and> starts_with cs ds)"

fun contains :: "string \<Rightarrow> string \<Rightarrow> bool" where
  "contains needle [] = (needle = [])"
| "contains needle (c # cs) = (starts_with needle (c # cs) \<or> contains needle cs)"

definition lower_char :: "char \<Rightarrow> char" where
  "lower_char c =
     (if 65 \<le> (of_char c :: nat) \<and> (of_char c :: nat) \<le> 90 then char_of (of_char c + 32 :: nat) else c)"

definition upper_char :: "char \<Rightarrow> char" where
  "upper_char c =
     (if 97 \<le> (of_char c :: nat) \<and> (of_char c :: nat) \<le> 122 then char_of (of_char c - 32 :: nat) else c)"

definition is_letter :: "char \<Rightarrow> bool" where
  "is_letter c = (lower_char c \<noteq> c \<or> upper_char c \<noteq> c)"

text \<open>The body of the \<^verbatim>\<open>try\<close> block of \<^verbatim>\<open>login_mksap\<close> up to the reading of
  \<^verbatim>\<open>self.page.url\<close>: the address the browser is on, and what was filled and clicked.\<close>

definition mksap_steps ::
  "login_page \<Rightarrow> scraper \<Rightarrow> string \<Rightarrow> string \<Rightarrow> exn + string \<times> effect list" where
  "mksap_steps pg s username password =
     (if \<not> page s then Inl AttributeError
      else
        and_then (open_login pg ''https://mksap19.acponline.org/'')
          (\<lambda>_. let done = fill_first pg username username_selectors @
                           fill_first pg password password_selectors @
                           click_first pg submit_selectors
                in and_then (settle pg) (\<lambda>_. Inr (current_url pg, done))))"

definition login_mksap ::
  "site \<Rightarrow> login_page \<Rightarrow> scraper \<Rightarrow> string \<Rightarrow> string \<Rightarrow> bool \<times> scraper \<times> effect list" where
  "login_mksap st pg s username password =
     (case start_browser st s of
        (ok, s1, started) \<Rightarrow>
          if \<not> ok then (False, s1, [])
          else (case mksap_steps pg s1 username password of
                  Inl e \<Rightarrow> (False, s1, [])
                | Inr (address, done) \<Rightarrow>
                    if contains ''mksap19'' address \<or> contains ''dashboard'' (map lower_char address)
                    then (True, s1\<lparr>logged_in_mksap := True\<rparr>, done)
                    else (True, s1\<lparr>logged_in_mksap := True\<rparr>, done)))"

section \<open>Aggregation\<close>

record aggregate_response =
  agg_query :: string
  sources :: "(string \<times> search_response) list"
  errors :: "(string \<times> string) list"
  combined_content :: string
  all_citations :: "citation list"
  agg_timestamp :: int

text \<open>\<^verbatim>\<open>os.getenv(a) or os.getenv(b)\<close> as a condition.\<close>

definition key_available :: "world \<Rightarrow> string \<Rightarrow> string \<Rightarrow> bool" where
  "key_available w a b = (\<not> not_set (py_or (getenv w a) (getenv w b)))"

text \<open>
  The list \<^verbatim>\<open>tasks\<close>: each provider with its search, run when it is awaited. The
  searches are methods of the module's \<^verbatim>\<open>scraper\<close> object \<open>s\<close>; none of the four reads
  its session flags.
\<close>

definition tasks :: "scraper \<Rightarrow> world \<Rightarrow> search_request \<Rightarrow> (string \<times> (exn + search_response)) list" where
  "tasks s w request =
     [(''pubmed'', search_pubmed w (query request) (max_results request))] @
     (if key_available w ''PERPLEXITY_API_KEY'' ''VITE_PERPLEXITY_API_KEY''
      then [(''perplexity'', search_perplexity w (query request) True (perplexity_model request))]
      else []) @
     (if key_available w ''EXA_API_KEY'' ''VITE_EXA_API_KEY''
      then [(''exa'', search_exa w (query request) (max_results request))] else []) @
     (if key_available w ''TAVILY_API_KEY'' ''VITE_TAVILY_API_KEY''
      then [(''tavily'', search_tavily w (query request) (max_results request))] else [])"

text \<open>\<^verbatim>\<open>for provider, task in tasks: try: results[provider] = ... except Exception as e:
  errors[provider] = str(e)\<close>; the dicts keep the order of first insertion.\<close>

fun execute ::
  "world \<Rightarrow> (string \<times> (exn + search_response)) list \<Rightarrow>
   (string \<times> search_response) list \<times> (string \<times> string) list \<Rightarrow>
   (string \<times> search_response) list \<times> (string \<times> string) list" where
  "execute w [] acc = acc"
| "execute w ((name, task) # ts) (results, errs) =
     (case task of
        Inr result \<Rightarrow> execute w ts (AList.update name result results, errs)
      | Inl e \<Rightarrow> execute w ts (results, AList.update name (exn_str w e) errs))"

text \<open>\<^verbatim>\<open>s.title()\<close> on ASCII: a letter after a letter is lowered, any other letter
  raised.\<close>

fun title_from :: "bool \<Rightarrow> string \<Rightarrow> string" where
  "title_from after_letter [] = []"
| "title_from after_letter (c # cs) =
     (if after_letter then lower_char c else upper_char c) # title_from (is_letter c) cs"

definition py_title :: "string \<Rightarrow> string" where
  "py_title s = title_from False s"

definition heading :: "string \<times> search_response \<Rightarrow> string" where
  "heading pr = ''## From '' @ py_title (fst pr) @ newline @ newline @ content (snd pr)"

definition aggregate_search :: "scraper \<Rightarrow> world \<Rightarrow> search_request \<Rightarrow> exn + aggregate_response" where
  "aggregate_search s w request =
     (case execute w (tasks s w request) ([], []) of
        (results, errs) \<Rightarrow>
          Inr \<lparr>agg_query = query request, sources = results, errors = errs,
               combined_content =
                 join divider (map heading (filter (\<lambda>pr. content (snd pr) \<noteq> []) results)),
               all_citations = concat (map (\<lambda>pr. citations (snd pr)) results),
               agg_timestamp = now w\<rparr>)"

section \<open>Example inputs\<close>

text \<open>A world with no API key configured and every upstream service unreachable.\<close>

definition offline_world :: world where
  "offline_world =
     \<lparr>getenv = (\<lambda>name. None), now = 0, str_of = (\<lambda>v. []), exn_text = (\<lambda>e. []),
      perplexity_api = (\<lambda>p. Fails ''offline''), exa_api = (\<lambda>p. Fails ''offline''),
      tavily_api = (\<lambda>p. Fails ''offline''), esearch = (\<lambda>p. Fails ''offline''),
      esummary = (\<lambda>ids. Fails ''offline'')\<rparr>"

text \<open>A world whose grounded-answer service cites \<open>n\<close> sources, whatever it is asked.\<close>

definition citing_world :: "nat \<Rightarrow> world" where
  "citing_world n =
     offline_world
       \<lparr>getenv := (\<lambda>name. if name = ''PERPLEXITY_API_KEY'' then Some ''key'' else None),
        perplexity_api :=
          (\<lambda>p. Responds 200
                 (Some (JDict [(''citations'', JList (replicate n (JStr ''https://nejm.org/'')))])))\<rparr>"

definition three_sources :: json where
  "three_sources = JDict [(''citations'', JList [JStr ''a'', JStr ''b'', JStr ''c''])]"

definition three_cited :: search_response where
  "three_cited =
     \<lparr>provider = ''perplexity'', resp_query = ''sepsis'', content = [],
      citations =
        [\<lparr>cit_id = ''pplx-0'', title = ''a'', authors = None, source = ''Perplexity'',
          year = None, url = Some ''a'', pmid = None, snippet = None\<rparr>,
         \<lparr>cit_id = ''pplx-1'', title = ''b'', authors = None, source = ''Perplexity'',
          year = None, url = Some ''b'', pmid = None, snippet = None\<rparr>,
         \<lparr>cit_id = ''pplx-2'', title = ''c'', authors = None, source = ''Perplexity'',
          year = None, url = Some ''c'', pmid = None, snippet = None\<rparr>],
      timestamp = 0\<rparr>"

text \<open>A world whose literature search finds no identifier.\<close>

definition empty_idlist_world :: world where
  "empty_idlist_world =
     offline_world
       \<lparr>esearch := (\<lambda>p. Responds 200 (Some (JDict [(''esearchresult'', JDict [(''idlist'', JList [])])])))\<rparr>"

text \<open>A site whose search page links to three topics and whose every later page load
  times out. The second hit has no title element and is not itself a link.\<close>

definition sepsis_hit :: hit where
  "sepsis_hit =
     \<lparr>title_elem = Some ''Sepsis in adults'', is_anchor = True, href = Some ''/contents/sepsis'',
      inner_href = None, hit_text = ''Sepsis in adults: evaluation and management'',
      parent_text = None\<rparr>"

definition shock_hit :: hit where
  "shock_hit =
     \<lparr>title_elem = None, is_anchor = False, href = None,
      inner_href = Some ''https://www.uptodate.com/contents/shock'',
      hit_text = ''Septic shock overview'', parent_text = None\<rparr>"

definition fever_hit :: hit where
  "fever_hit =
     \<lparr>title_elem = Some ''Fever'', is_anchor = True, href = Some ''/contents/fever'',
      inner_href = None, hit_text = ''Fever in adults'', parent_text = None\<rparr>"

definition sepsis_page :: soup where
  "sepsis_page =
     \<lparr>select = (\<lambda>sel. []), content_links = [sepsis_hit, shock_hit, fever_hit],
      section_links = [sepsis_hit], topic_content = None, article_tag = None, main_tag = None\<rparr>"

definition flaky_site :: site where
  "flaky_site =
     \<lparr>PLAYWRIGHT_AVAILABLE = True, SCRAPING_LIBS_AVAILABLE = True, launch = Launched,
      navigate = (\<lambda>k u. if k = 0 then Inr sepsis_page else Inl (BrowserError ''Timeout 30000ms exceeded'')),
      markdown = (\<lambda>html. Inr html)\<rparr>"

text \<open>A scraper with a running browser, logged into both sites, and a request.\<close>

definition member_scraper :: scraper where
  "member_scraper = \<lparr>browser = True, page = True, logged_in_uptodate = True, logged_in_mksap = True\<rparr>"

definition sepsis_request :: search_request where
  "sepsis_request = \<lparr>query = ''sepsis'', max_results = 5, include_domains = None, perplexity_model = ''sonar-pro''\<rparr>"

text \<open>A search result whose URL has no scheme, and a world in which Exa and Tavily
  return it.\<close>

definition bare_url_result :: json where
  "bare_url_result = JDict [(''title'', JStr ''Sepsis guideline''), (''url'', JStr ''example.com'')]"

definition bare_url_world :: world where
  "bare_url_world =
     offline_world
       \<lparr>getenv := (\<lambda>name. if name = ''EXA_API_KEY'' \<or> name = ''TAVILY_API_KEY'' then Some ''key'' else None),
        exa_api := (\<lambda>p. Responds 200 (Some (JDict [(''results'', JList [bare_url_result])]))),
        tavily_api := (\<lambda>p. Responds 200 (Some (JDict [(''results'', JList [bare_url_result])])))\<rparr>"

text \<open>A page without any login form: no selector matches, and waiting for one times
  out.\<close>

definition blank_login_page :: login_page where
  "blank_login_page =
     \<lparr>open_login = (\<lambda>u. Inr ()), is_visible = (\<lambda>sel. Inr False), click = (\<lambda>sel. Inr ()),
      wait_for_selector = (\<lambda>sel. Inl (BrowserError ''Timeout 15000ms exceeded'')),
      fill = (\<lambda>sel v. Inr ()), press = (\<lambda>sel k. Inr ()), locator_count = (\<lambda>sel. Inr 0),
      settle = Inr (), current_url = ''https://www.acponline.org/maintenance''\<rparr>"











section \<open>Properties\<close>

subsection \<open>Numbering\<close>






lemma str_nat_small:
  "str_nat 0 = ''0''" "str_nat 1 = ''1''" "str_nat 2 = ''2''" "str_nat 3 = ''3''"
  "str_nat (Suc 0) = ''1''" "str_nat (Suc (Suc 0)) = ''2''"
  by code_simp+

lemma enumerate_map_length:
  "enumerate_map f k xs = Inr ys \<Longrightarrow> length ys = length xs"
  by (induction xs arbitrary: k ys) (auto split: sum.splits)


subsection \<open>Grounded-answer search\<close>

lemma configured_request:
  assumes "py_or (getenv w ''PERPLEXITY_API_KEY'') (getenv w ''VITE_PERPLEXITY_API_KEY'') = Some k"
    and "k \<noteq> []"
  shows "search_perplexity_run w q mf model =
           ([ChatCompletion (perplexity_request k q mf model)],
            perplexity_outcome w q (perplexity_api w (perplexity_request k q mf model)))"
  using assms by (simp add: search_perplexity_run_def Let_def)

lemma system_prompt_tiers:
  "system_prompt mf ''sonar-pro'' =
     (if mf then
        ''You are a medical education researcher. Provide comprehensive, evidence-based information '' @
        ''with specific citations. Focus on current guidelines, landmark studies, and clinical pearls. '' @
        ''Always cite sources with author, year, and journal/guideline name.''
      else ''You are a helpful research assistant.'')"
  "system_prompt mf ''sonar-reasoning-pro'' =
     (if mf then
        ''You are an expert clinical educator. Think through this medical topic step-by-step, '' @
        ''explaining your clinical reasoning. Consider differential diagnoses, pathophysiology, '' @
        ''and evidence-based management. Cite guidelines and landmark trials. Show your reasoning process.''
      else ''You are an analytical researcher. Think step-by-step and show your reasoning.'')"
  "system_prompt mf ''sonar-deep-research'' =
     (if mf then
        ''You are a medical literature researcher conducting an exhaustive review. Synthesize '' @
        ''information from multiple high-quality sources including guidelines, systematic reviews, '' @
        ''and landmark trials. Provide a comprehensive analysis with extensive citations.''
      else ''Conduct exhaustive research and provide comprehensive synthesis.'')"
  by (simp_all add: system_prompt_def system_prompts_def)

lemma system_prompt_fallback:
  "model \<notin> {''sonar-pro'', ''sonar-reasoning-pro'', ''sonar-deep-research''} \<Longrightarrow>
     system_prompt mf model = system_prompt mf ''sonar-pro''"
  by (simp add: system_prompt_def system_prompts_def)

text \<open>
  Claim C9. With an API key configured, \<^verbatim>\<open>search_perplexity\<close> issues one request, for the
  model it was called with, and its outcome is what the answer to that request gives. The
  requests for the three model tiers carry three different system instructions, whether
  or not the search has the medical focus; the temperature sent is 0.1 for
  \<^verbatim>\<open>sonar-reasoning-pro\<close> and 0.2 for the other two, so the reasoning tier's is strictly
  lower; and for a model that is none of the three the request carries the system
  instruction of \<^verbatim>\<open>sonar-pro\<close>, with the temperature 0.2.
\<close>

theorem perplexity_tiers:
  assumes "py_or (getenv w ''PERPLEXITY_API_KEY'') (getenv w ''VITE_PERPLEXITY_API_KEY'') = Some k"
    and "k \<noteq> []"
  shows "\<exists>p_pro p_reasoning p_deep p.
           fst (search_perplexity_run w q mf ''sonar-pro'') = [ChatCompletion p_pro]
         \<and> fst (search_perplexity_run w q mf ''sonar-reasoning-pro'') = [ChatCompletion p_reasoning]
         \<and> fst (search_perplexity_run w q mf ''sonar-deep-research'') = [ChatCompletion p_deep]
         \<and> fst (search_perplexity_run w q mf model) = [ChatCompletion p]
         \<and> search_perplexity w q mf model = perplexity_outcome w q (perplexity_api w p)
         \<and> pp_model p_pro = ''sonar-pro'' \<and> pp_model p_reasoning = ''sonar-reasoning-pro''
         \<and> pp_model p_deep = ''sonar-deep-research'' \<and> pp_model p = model
         \<and> pp_bearer p = k \<and> pp_user p = q \<and> pp_return_citations p
         \<and> pp_search_domain_filter p = (if mf then Some MEDICAL_DOMAINS else None)
         \<and> distinct [pp_system p_pro, pp_system p_reasoning, pp_system p_deep]
         \<and> pp_system p_pro =
             (if mf then
                ''You are a medical education researcher. Provide comprehensive, evidence-based information '' @
                ''with specific citations. Focus on current guidelines, landmark studies, and clinical pearls. '' @
                ''Always cite sources with author, year, and journal/guideline name.''
              else ''You are a helpful research assistant.'')
         \<and> pp_system p_reasoning =
             (if mf then
                ''You are an expert clinical educator. Think through this medical topic step-by-step, '' @
                ''explaining your clinical reasoning. Consider differential diagnoses, pathophysiology, '' @
                ''and evidence-based management. Cite guidelines and landmark trials. Show your reasoning process.''
              else ''You are an analytical researcher. Think step-by-step and show your reasoning.'')
         \<and> pp_system p_deep =
             (if mf then
                ''You are a medical literature researcher conducting an exhaustive review. Synthesize '' @
                ''information from multiple high-quality sources including guidelines, systematic reviews, '' @
                ''and landmark trials. Provide a comprehensive analysis with extensive citations.''
              else ''Conduct exhaustive research and provide comprehensive synthesis.'')
         \<and> pp_temperature p_reasoning = 1 / 10
         \<and> pp_temperature p_pro = 2 / 10
         \<and> pp_temperature p_deep = 2 / 10
         \<and> pp_temperature p_reasoning < pp_temperature p_pro
         \<and> pp_temperature p_reasoning < pp_temperature p_deep
         \<and> (model \<notin> {''sonar-pro'', ''sonar-reasoning-pro'', ''sonar-deep-research''} \<longrightarrow>
              pp_system p = pp_system p_pro \<and> pp_temperature p = 2 / 10)"
proof -
  note run = configured_request [OF assms]
  let ?p = "\<lambda>m. perplexity_request k q mf m"
  have sent: "fst (search_perplexity_run w q mf m) = [ChatCompletion (?p m)]" for m
    by (simp add: run)
  have out: "search_perplexity w q mf model = perplexity_outcome w q (perplexity_api w (?p model))"
    by (simp add: search_perplexity_def run)
  have fields: "pp_model (?p m) = m" "pp_system (?p m) = system_prompt mf m"
    "pp_temperature (?p m) = temperature m" "pp_bearer (?p m) = k" "pp_user (?p m) = q"
    "pp_return_citations (?p m)"
    "pp_search_domain_filter (?p m) = (if mf then Some MEDICAL_DOMAINS else None)" for m
    by (simp_all add: perplexity_request_def)
  have d: "distinct [system_prompt mf ''sonar-pro'', system_prompt mf ''sonar-reasoning-pro'',
                     system_prompt mf ''sonar-deep-research'']"
    by (cases mf) (simp_all add: system_prompt_tiers)
  have t: "temperature ''sonar-reasoning-pro'' = 1 / 10" "temperature ''sonar-pro'' = 2 / 10"
    "temperature ''sonar-deep-research'' = 2 / 10"
    by (simp_all add: temperature_def)
  have f: "model \<notin> {''sonar-pro'', ''sonar-reasoning-pro'', ''sonar-deep-research''} \<longrightarrow>
        system_prompt mf model = system_prompt mf ''sonar-pro'' \<and> temperature model = 2 / 10"
    using system_prompt_fallback [of model mf] by (simp add: temperature_def)
  show ?thesis
    apply (rule exI [of _ "?p ''sonar-pro''"])
    apply (rule exI [of _ "?p ''sonar-reasoning-pro''"])
    apply (rule exI [of _ "?p ''sonar-deep-research''"])
    apply (rule exI [of _ "?p model"])
    using sent out d f
    apply (simp only: fields t system_prompt_tiers)
    apply simp
    done
qed

theorem perplexity_tiers_witness:
  "py_or (getenv (citing_world 2) ''PERPLEXITY_API_KEY'')
         (getenv (citing_world 2) ''VITE_PERPLEXITY_API_KEY'') = Some ''key''
   \<and> ''key'' \<noteq> []
   \<and> fst (search_perplexity_run (citing_world 2) ''sepsis'' True ''sonar'') =
       [ChatCompletion
          \<lparr>pp_bearer = ''key'', pp_model = ''sonar'',
           pp_system =
             ''You are a medical education researcher. Provide comprehensive, evidence-based information '' @
             ''with specific citations. Focus on current guidelines, landmark studies, and clinical pearls. '' @
             ''Always cite sources with author, year, and journal/guideline name.'',
           pp_user = ''sepsis'', pp_temperature = 2 / 10, pp_return_citations = True,
           pp_search_domain_filter = Some MEDICAL_DOMAINS\<rparr>]"
proof -
  have 1: "py_or (getenv (citing_world 2) ''PERPLEXITY_API_KEY'')
         (getenv (citing_world 2) ''VITE_PERPLEXITY_API_KEY'') = Some ''key''"
    by (simp add: citing_world_def offline_world_def py_or_def)
  have 2: "''key'' \<noteq> []" by simp
  have n: "''sonar'' \<notin> {''sonar-pro'', ''sonar-reasoning-pro'', ''sonar-deep-research''}" by simp
  have "\<exists>p. fst (search_perplexity_run (citing_world 2) ''sepsis'' True ''sonar'') = [ChatCompletion p]
      \<and> pp_bearer p = ''key'' \<and> pp_model p = ''sonar''
      \<and> pp_system p =
           ''You are a medical education researcher. Provide comprehensive, evidence-based information '' @
           ''with specific citations. Focus on current guidelines, landmark studies, and clinical pearls. '' @
           ''Always cite sources with author, year, and journal/guideline name.''
      \<and> pp_user p = ''sepsis'' \<and> pp_temperature p = 2 / 10 \<and> pp_return_citations p
      \<and> pp_search_domain_filter p = Some MEDICAL_DOMAINS"
    using perplexity_tiers [OF 1 2, of "''sepsis''" True "''sonar''"] n
    by (elim exE conjE) (auto intro!: exI)
  then obtain p
    where p: "fst (search_perplexity_run (citing_world 2) ''sepsis'' True ''sonar'') = [ChatCompletion p]"
      and fields: "pp_bearer p = ''key''" "pp_model p = ''sonar''"
        "pp_system p =
           ''You are a medical education researcher. Provide comprehensive, evidence-based information '' @
           ''with specific citations. Focus on current guidelines, landmark studies, and clinical pearls. '' @
           ''Always cite sources with author, year, and journal/guideline name.''"
        "pp_user p = ''sepsis''" "pp_temperature p = 2 / 10" "pp_return_citations p"
        "pp_search_domain_filter p = Some MEDICAL_DOMAINS"
    by (elim exE conjE) (rule that; assumption)
  have "p = \<lparr>pp_bearer = ''key'', pp_model = ''sonar'',
           pp_system =
             ''You are a medical education researcher. Provide comprehensive, evidence-based information '' @
             ''with specific citations. Focus on current guidelines, landmark studies, and clinical pearls. '' @
             ''Always cite sources with author, year, and journal/guideline name.'',
           pp_user = ''sepsis'', pp_temperature = 2 / 10, pp_return_citations = True,
           pp_search_domain_filter = Some MEDICAL_DOMAINS\<rparr>"
    using fields by (intro perplexity_payload.equality) simp_all
  with p 1 2 show ?thesis by simp
qed

lemma perplexity_citations_length:
  assumes "perplexity_response w q data = Inr r"
    and "py_get data ''citations'' (JList []) = Inr (JList raws)"
  shows "length (citations r) = length raws"
  using assms
  by (auto simp: perplexity_response_def and_then_def split: sum.splits
           dest: enumerate_map_length)

lemma perplexity_citation_str:
  "perplexity_citation i (JStr u) =
     Inr \<lparr>cit_id = ''pplx-'' @ str_nat i, title = u, authors = None, source = ''Perplexity'',
          year = None, url = Some u, pmid = None, snippet = None\<rparr>"
  by (simp add: perplexity_citation_def and_then_def)

lemma enumerate_map_replicate:
  "\<exists>ys. enumerate_map perplexity_citation k (replicate n (JStr u)) = Inr ys \<and> length ys = n"
proof (induction n arbitrary: k)
  case 0
  then show ?case by simp
next
  case (Suc n)
  from Suc [of "Suc k"] obtain ys
    where "enumerate_map perplexity_citation (Suc k) (replicate n (JStr u)) = Inr ys"
      and "length ys = n"
    by blast
  then show ?case by (simp add: perplexity_citation_str)
qed

lemma citing_world_result:
  "\<exists>r. search_perplexity_endpoint (citing_world n) request = Inr r \<and> length (citations r) = n"
proof -
  obtain ys
    where ys: "enumerate_map perplexity_citation 0 (replicate n (JStr ''https://nejm.org/'')) = Inr ys"
      "length ys = n"
    using enumerate_map_replicate by blast
  show ?thesis
    by (simp add: search_perplexity_endpoint_def search_perplexity_def search_perplexity_run_def perplexity_outcome_def Let_def citing_world_def
        offline_world_def py_or_def perplexity_response_def and_then_def ys)
qed

text \<open>
  Claim C10. The Perplexity endpoint ignores \<^verbatim>\<open>max_results\<close>: changing it in the request
  changes nothing in the outcome; for any number \<open>n\<close> there is an upstream answer for
  which the result has \<open>n\<close> citations whatever \<^verbatim>\<open>max_results\<close> is; and a successful
  result has one citation for each upstream citation, none cut off.
\<close>

theorem perplexity_ignores_max_results:
  "search_perplexity_endpoint w (request\<lparr>max_results := m\<rparr>) = search_perplexity_endpoint w request
   \<and> (\<exists>r. search_perplexity_endpoint (citing_world n) (request\<lparr>max_results := m\<rparr>) = Inr r
          \<and> length (citations r) = n)
   \<and> (perplexity_response w q data = Inr r' \<longrightarrow>
        py_get data ''citations'' (JList []) = Inr (JList raws) \<longrightarrow>
        length (citations r') = length raws)"
  using citing_world_result [of n "request\<lparr>max_results := m\<rparr>"]
    perplexity_citations_length [of w q data r' raws]
  by (simp add: search_perplexity_endpoint_def)

theorem perplexity_ignores_max_results_witness:
  "perplexity_response offline_world ''sepsis'' three_sources = Inr three_cited
   \<and> py_get three_sources ''citations'' (JList []) = Inr (JList [JStr ''a'', JStr ''b'', JStr ''c''])
   \<and> length (citations three_cited) = length [JStr ''a'', JStr ''b'', JStr ''c'']"
proof -
  have 1: "perplexity_response offline_world ''sepsis'' three_sources = Inr three_cited"
    by (simp add: perplexity_response_def three_sources_def and_then_def perplexity_citation_str
      offline_world_def str_nat_small three_cited_def)
  have 2: "py_get three_sources ''citations'' (JList []) = Inr (JList [JStr ''a'', JStr ''b'', JStr ''c''])"
    by (simp add: three_sources_def)
  from perplexity_ignores_max_results
    [where w = offline_world and q = "''sepsis''" and data = three_sources and r' = three_cited
       and raws = "[JStr ''a'', JStr ''b'', JStr ''c'']"] 1 2
  show ?thesis by blast
qed

subsection \<open>Literature search\<close>

text \<open>
  Claim C7. When the identifier search answers with a JSON body whose id list is empty,
  \<^verbatim>\<open>search_pubmed\<close> returns a result, not an error, with the content
  \<^verbatim>\<open>"No results found."\<close> and no citation, and the only call it has issued is the
  identifier search: the metadata fetch is not made.
\<close>

theorem pubmed_empty_idlist:
  assumes "http_json (esearch w \<lparr>es_term = q, es_retmax = maxr\<rparr>) = Inr search_data"
    and "pubmed_ids search_data = Inr (JList [])"
  shows "search_pubmed_run w q maxr =
           ([Esearch \<lparr>es_term = q, es_retmax = maxr\<rparr>],
            Inr \<lparr>provider = ''pubmed'', resp_query = q, content = ''No results found.'',
                 citations = [], timestamp = now w\<rparr>)
         \<and> search_pubmed w q maxr =
             Inr \<lparr>provider = ''pubmed'', resp_query = q, content = ''No results found.'',
                  citations = [], timestamp = now w\<rparr>"
  using assms
  by (simp add: search_pubmed_def search_pubmed_run_def and_then_def no_results_def)

theorem pubmed_empty_idlist_witness:
  "http_json (esearch empty_idlist_world \<lparr>es_term = ''sepsis'', es_retmax = 5\<rparr>)
     = Inr (JDict [(''esearchresult'', JDict [(''idlist'', JList [])])])
   \<and> pubmed_ids (JDict [(''esearchresult'', JDict [(''idlist'', JList [])])]) = Inr (JList [])
   \<and> search_pubmed_run empty_idlist_world ''sepsis'' 5 =
           ([Esearch \<lparr>es_term = ''sepsis'', es_retmax = 5\<rparr>],
            Inr \<lparr>provider = ''pubmed'', resp_query = ''sepsis'', content = ''No results found.'',
                 citations = [], timestamp = 0\<rparr>)"
proof -
  have 1: "http_json (esearch empty_idlist_world \<lparr>es_term = ''sepsis'', es_retmax = 5\<rparr>)
     = Inr (JDict [(''esearchresult'', JDict [(''idlist'', JList [])])])"
    by (simp add: empty_idlist_world_def offline_world_def)
  have 2: "pubmed_ids (JDict [(''esearchresult'', JDict [(''idlist'', JList [])])]) = Inr (JList [])"
    by (simp add: pubmed_ids_def and_then_def)
  have 3: "now empty_idlist_world = 0"
    by (simp add: empty_idlist_world_def offline_world_def)
  from pubmed_empty_idlist [OF 1 2] 1 2 3 show ?thesis by simp
qed

subsection \<open>Authenticated-content search\<close>

text \<open>
  Claim C6. With the session flag of the target unset, \<^verbatim>\<open>search_uptodate\<close> and
  \<^verbatim>\<open>search_mksap\<close> fail with status 401, and they do so before the browser is started
  or any page is loaded: the list of issued actions is empty and the scraper is unchanged.
\<close>

theorem unauthenticated_search_401:
  "(\<not> logged_in_uptodate s \<longrightarrow>
      search_uptodate st w s q maxr =
        (Inl (HTTPException 401 ''Not logged into UpToDate. Please login first.''), s, []))
   \<and> (\<not> logged_in_mksap s \<longrightarrow>
      search_mksap st w s q maxr =
        (Inl (HTTPException 401 ''Not logged into MKSAP. Please login first.''), s, []))"
  by (simp add: search_uptodate_def search_mksap_def)

theorem unauthenticated_search_401_witness:
  "\<not> logged_in_uptodate init_scraper \<and> \<not> logged_in_mksap init_scraper
   \<and> search_uptodate flaky_site offline_world init_scraper ''sepsis'' 5 =
        (Inl (HTTPException 401 ''Not logged into UpToDate. Please login first.''), init_scraper, [])
   \<and> search_mksap flaky_site offline_world init_scraper ''sepsis'' 5 =
        (Inl (HTTPException 401 ''Not logged into MKSAP. Please login first.''), init_scraper, [])"
  using unauthenticated_search_401 [of init_scraper flaky_site offline_world "''sepsis''" 5]
  by (simp add: init_scraper_def)

lemma load_page_page: "load_page st s k u = Inr sp \<Longrightarrow> page s"
  by (simp add: load_page_def split: if_splits)

lemma url_uptodate_citation: "url (uptodate_citation i h) = Some (uptodate_url h)"
  by (simp add: uptodate_citation_def)

lemma uptodate_parts:
  "map (\<lambda>(i, x). uptodate_part i x) xs =
     map (\<lambda>(i, x). ''**'' @ (case title_elem x of
                                Some t \<Rightarrow> t
                              | None \<Rightarrow> ''UpToDate Result '' @ str_nat (i + 1)) @
                    ''**'' @ [CHR 0x0A] @ take 300 (hit_text x)) xs"
  by (simp add: uptodate_part_def uptodate_title_def newline_def)

lemma uptodate_citations:
  "map (\<lambda>(i, x). uptodate_citation i x) xs =
     map (\<lambda>(i, x).
            \<lparr>cit_id = ''uptodate-'' @ str_nat i,
             title = take 200 (case title_elem x of
                                 Some t \<Rightarrow> t
                               | None \<Rightarrow> ''UpToDate Result '' @ str_nat (i + 1)),
             authors = None, source = ''UpToDate'', year = None, url = Some (uptodate_url x),
             pmid = None, snippet = Some (take 300 (hit_text x))\<rparr>) xs"
  by (simp add: uptodate_citation_def uptodate_title_def)

text \<open>
  Claim C8. When the UpToDate search page yields at least one hit and the fetch of the
  first hit's article fails (the page load, the parser or the conversion raises), the
  search still returns a result. Its content is the blocks of the hits joined by the
  divider \<^verbatim>\<open>"\n\n---\n\n"\<close>, the block of a hit being its title between \<^verbatim>\<open>**\<close>, a line
  break and the first 300 characters of its text; the title is the text of the hit's
  title element or, without one, \<^verbatim>\<open>UpToDate Result\<close> with the hit's position. The
  second page load has been attempted when the first hit has an address.
\<close>

theorem uptodate_fallback:
  assumes "logged_in_uptodate s"
    and "start_browser st s = (True, s1, started)"
    and "load_page st s1 0 (uptodate_search_url q) = Inr sp"
    and "uptodate_hits sp maxr = h # hs"
    and "article_content st s1 (uptodate_url h) = Inl e"
  shows "search_uptodate st w s q maxr =
           (Inr \<lparr>provider = ''uptodate'', resp_query = q,
                 content =
                   join ([CHR 0x0A, CHR 0x0A] @ ''---'' @ [CHR 0x0A, CHR 0x0A])
                     (map (\<lambda>(i, x). ''**'' @ (case title_elem x of
                                                Some t \<Rightarrow> t
                                              | None \<Rightarrow> ''UpToDate Result '' @ str_nat (i + 1)) @
                                    ''**'' @ [CHR 0x0A] @ take 300 (hit_text x))
                        (enumerate_from 0 (h # hs))),
                 citations =
                   map (\<lambda>(i, x).
                          \<lparr>cit_id = ''uptodate-'' @ str_nat i,
                           title = take 200 (case title_elem x of
                                               Some t \<Rightarrow> t
                                             | None \<Rightarrow> ''UpToDate Result '' @ str_nat (i + 1)),
                           authors = None, source = ''UpToDate'', year = None,
                           url = Some (uptodate_url x), pmid = None,
                           snippet = Some (take 300 (hit_text x))\<rparr>)
                     (enumerate_from 0 (h # hs)),
                 timestamp = now w\<rparr>,
            s1,
            started @ [Goto (uptodate_search_url q)] @
              (if uptodate_url h = [] then [] else [Goto (uptodate_url h)]))"
proof -
  have pg: "page s1" using assms(3) by (rule load_page_page)
  have d: "divider = [CHR 0x0A, CHR 0x0A] @ ''---'' @ [CHR 0x0A, CHR 0x0A]"
    by (simp add: divider_def newline_def)
  have f: "first_content st s1 (map (\<lambda>(i, x). uptodate_citation i x) (enumerate_from 0 (h # hs)))
      = ([], if uptodate_url h = [] then [] else [Goto (uptodate_url h)])"
    using assms(5) pg by (simp add: first_content_def url_uptodate_citation navigation_def)
  have "search_uptodate st w s q maxr =
           (Inr \<lparr>provider = ''uptodate'', resp_query = q,
                 content = join divider (map (\<lambda>(i, x). uptodate_part i x) (enumerate_from 0 (h # hs))),
                 citations = map (\<lambda>(i, x). uptodate_citation i x) (enumerate_from 0 (h # hs)),
                 timestamp = now w\<rparr>,
            s1,
            started @ [Goto (uptodate_search_url q)] @
              (if uptodate_url h = [] then [] else [Goto (uptodate_url h)]))"
    using assms(1-4) pg f
    by (simp add: search_uptodate_def navigation_def Let_def del: enumerate_from.simps)
  then show ?thesis
    by (simp only: uptodate_parts uptodate_citations d)
qed

theorem uptodate_fallback_witness:
  "logged_in_uptodate (init_scraper\<lparr>logged_in_uptodate := True\<rparr>)
   \<and> start_browser flaky_site (init_scraper\<lparr>logged_in_uptodate := True\<rparr>)
       = (True, init_scraper\<lparr>logged_in_uptodate := True, browser := True, page := True\<rparr>, [Launch])
   \<and> load_page flaky_site (init_scraper\<lparr>logged_in_uptodate := True, browser := True, page := True\<rparr>) 0
         (uptodate_search_url ''septic shock'') = Inr sepsis_page
   \<and> uptodate_hits sepsis_page 2 = [sepsis_hit, shock_hit]
   \<and> article_content flaky_site (init_scraper\<lparr>logged_in_uptodate := True, browser := True, page := True\<rparr>)
         (uptodate_url sepsis_hit) = Inl (BrowserError ''Timeout 30000ms exceeded'')
   \<and> search_uptodate flaky_site offline_world (init_scraper\<lparr>logged_in_uptodate := True\<rparr>)
         ''septic shock'' 2 =
         (Inr \<lparr>provider = ''uptodate'', resp_query = ''septic shock'',
               content =
                 ''**Sepsis in adults**'' @ [CHR 0x0A] @ ''Sepsis in adults: evaluation and management'' @
                 [CHR 0x0A, CHR 0x0A] @ ''---'' @ [CHR 0x0A, CHR 0x0A] @
                 ''**UpToDate Result 2**'' @ [CHR 0x0A] @ ''Septic shock overview'',
               citations =
                 [\<lparr>cit_id = ''uptodate-0'', title = ''Sepsis in adults'', authors = None,
                   source = ''UpToDate'', year = None,
                   url = Some ''https://www.uptodate.com/contents/sepsis'', pmid = None,
                   snippet = Some ''Sepsis in adults: evaluation and management''\<rparr>,
                  \<lparr>cit_id = ''uptodate-1'', title = ''UpToDate Result 2'', authors = None,
                   source = ''UpToDate'', year = None,
                   url = Some ''https://www.uptodate.com/contents/shock'', pmid = None,
                   snippet = Some ''Septic shock overview''\<rparr>],
               timestamp = 0\<rparr>,
          init_scraper\<lparr>logged_in_uptodate := True, browser := True, page := True\<rparr>,
          [Launch,
           Goto ''https://www.uptodate.com/contents/search?search=septic+shock&source=SEARCH_RESULT'',
           Goto ''https://www.uptodate.com/contents/sepsis''])"
proof -
  let ?s = "init_scraper\<lparr>logged_in_uptodate := True\<rparr>"
  let ?s1 = "init_scraper\<lparr>logged_in_uptodate := True, browser := True, page := True\<rparr>"
  have 1: "logged_in_uptodate ?s" by simp
  have 2: "start_browser flaky_site ?s = (True, ?s1, [Launch])"
    by (simp add: start_browser_def flaky_site_def init_scraper_def)
  have 3: "load_page flaky_site ?s1 0 (uptodate_search_url ''septic shock'') = Inr sepsis_page"
    by (simp add: load_page_def flaky_site_def and_then_def)
  have 4: "uptodate_hits sepsis_page 2 = [sepsis_hit, shock_hit]"
    by (simp add: uptodate_hits_def sepsis_page_def result_selectors_def py_take_def)
  have 5: "uptodate_url sepsis_hit = ''https://www.uptodate.com/contents/sepsis''"
    "uptodate_url shock_hit = ''https://www.uptodate.com/contents/shock''"
    by (simp_all add: uptodate_url_def sepsis_hit_def shock_hit_def absolute_url_def)
  have 6: "article_content flaky_site ?s1 (uptodate_url sepsis_hit) = Inl (BrowserError ''Timeout 30000ms exceeded'')"
    by (simp add: article_content_def load_page_def flaky_site_def and_then_def)
  have 7: "uptodate_search_url ''septic shock'' =
      ''https://www.uptodate.com/contents/search?search=septic+shock&source=SEARCH_RESULT''"
    by (simp add: uptodate_search_url_def replace_spaces_def)
  have 8: "title_elem sepsis_hit = Some ''Sepsis in adults''" "title_elem shock_hit = None"
    "hit_text sepsis_hit = ''Sepsis in adults: evaluation and management''"
    "hit_text shock_hit = ''Septic shock overview''"
    by (simp_all add: sepsis_hit_def shock_hit_def)
  have 9: "now offline_world = 0" by (simp add: offline_world_def)
  from uptodate_fallback [OF 1 2 3 4 6, of offline_world]
  have "search_uptodate flaky_site offline_world ?s ''septic shock'' 2 =
         (Inr \<lparr>provider = ''uptodate'', resp_query = ''septic shock'',
               content =
                 ''**Sepsis in adults**'' @ [CHR 0x0A] @ ''Sepsis in adults: evaluation and management'' @
                 [CHR 0x0A, CHR 0x0A] @ ''---'' @ [CHR 0x0A, CHR 0x0A] @
                 ''**UpToDate Result 2**'' @ [CHR 0x0A] @ ''Septic shock overview'',
               citations =
                 [\<lparr>cit_id = ''uptodate-0'', title = ''Sepsis in adults'', authors = None,
                   source = ''UpToDate'', year = None,
                   url = Some ''https://www.uptodate.com/contents/sepsis'', pmid = None,
                   snippet = Some ''Sepsis in adults: evaluation and management''\<rparr>,
                  \<lparr>cit_id = ''uptodate-1'', title = ''UpToDate Result 2'', authors = None,
                   source = ''UpToDate'', year = None,
                   url = Some ''https://www.uptodate.com/contents/shock'', pmid = None,
                   snippet = Some ''Septic shock overview''\<rparr>],
               timestamp = 0\<rparr>,
          ?s1,
          [Launch,
           Goto ''https://www.uptodate.com/contents/search?search=septic+shock&source=SEARCH_RESULT'',
           Goto ''https://www.uptodate.com/contents/sepsis''])"
    by (simp add: 5 7 8 9 str_nat_small)
  with 1 2 3 4 6 show ?thesis by blast
qed

subsection \<open>Aggregation\<close>


lemma execute_keys:
  "execute w ts (R, E) = (R', E') \<Longrightarrow>
     fst ` set R' \<union> fst ` set E' = fst ` set R \<union> fst ` set E \<union> fst ` set ts"
proof (induction ts arbitrary: R E)
  case Nil
  then show ?case by simp
next
  case (Cons t ts)
  obtain n task where t: "t = (n, task)" by (cases t)
  show ?case
  proof (cases task)
    case (Inl e)
    with Cons.prems t have "execute w ts (R, AList.update n (exn_str w e) E) = (R', E')" by simp
    from Cons.IH [OF this] show ?thesis using t by (auto simp: dom_update)
  next
    case (Inr res)
    with Cons.prems t have "execute w ts (AList.update n res R, E) = (R', E')" by simp
    from Cons.IH [OF this] show ?thesis using t by (auto simp: dom_update)
  qed
qed

lemma execute_disjoint:
  "execute w ts (R, E) = (R', E') \<Longrightarrow> distinct (map fst ts) \<Longrightarrow>
   fst ` set ts \<inter> (fst ` set R \<union> fst ` set E) = {} \<Longrightarrow>
   fst ` set R \<inter> fst ` set E = {} \<Longrightarrow> fst ` set R' \<inter> fst ` set E' = {}"
proof (induction ts arbitrary: R E)
  case Nil
  then show ?case by simp
next
  case (Cons t ts)
  obtain n task where t: "t = (n, task)" by (cases t)
  from Cons.prems(2) t have d: "distinct (map fst ts)" and n: "n \<notin> fst ` set ts" by auto
  from Cons.prems(3) t have nR: "n \<notin> fst ` set R" and nE: "n \<notin> fst ` set E"
    and ts: "fst ` set ts \<inter> (fst ` set R \<union> fst ` set E) = {}" by auto
  show ?case
  proof (cases task)
    case (Inl e)
    with Cons.prems t have ex: "execute w ts (R, AList.update n (exn_str w e) E) = (R', E')" by simp
    show ?thesis
      using Cons.IH [OF ex d] n nR ts Cons.prems(4) by (auto simp: dom_update)
  next
    case (Inr res)
    with Cons.prems t have ex: "execute w ts (AList.update n res R, E) = (R', E')" by simp
    show ?thesis
      using Cons.IH [OF ex d] n nE ts Cons.prems(4) by (auto simp: dom_update)
  qed
qed



lemma tasks_names:
  "map fst (tasks s w request) =
     [''pubmed''] @
     (if key_available w ''PERPLEXITY_API_KEY'' ''VITE_PERPLEXITY_API_KEY'' then [''perplexity''] else []) @
     (if key_available w ''EXA_API_KEY'' ''VITE_EXA_API_KEY'' then [''exa''] else []) @
     (if key_available w ''TAVILY_API_KEY'' ''VITE_TAVILY_API_KEY'' then [''tavily''] else [])"
  by (simp add: tasks_def)

lemma tasks_distinct: "distinct (map fst (tasks s w request))"
  by (simp add: tasks_names)

lemma aggregate_search_result:
  "\<exists>r. aggregate_search s w request = Inr r
      \<and> execute w (tasks s w request) ([], []) = (sources r, errors r)
      \<and> all_citations r = concat (map (\<lambda>pr. citations (snd pr)) (sources r))"
  by (cases "execute w (tasks s w request) ([], [])") (simp add: aggregate_search_def)

lemma aggregate_keys:
  assumes "aggregate_search s w request = Inr r"
  shows "fst ` set (sources r) \<inter> fst ` set (errors r) = {}"
    and "fst ` set (sources r) \<union> fst ` set (errors r) = fst ` set (tasks s w request)"
proof -
  from assms aggregate_search_result [of s w request]
  have ex: "execute w (tasks s w request) ([], []) = (sources r, errors r)" by auto
  from execute_disjoint [OF ex tasks_distinct]
  show "fst ` set (sources r) \<inter> fst ` set (errors r) = {}" by simp
  from execute_keys [OF ex]
  show "fst ` set (sources r) \<union> fst ` set (errors r) = fst ` set (tasks s w request)" by simp
qed

text \<open>
  Claim C1. \<^verbatim>\<open>aggregate_search\<close> always returns a response: no exception of a provider
  gets past the loop. In the response the keys of \<^verbatim>\<open>sources\<close> and of \<^verbatim>\<open>errors\<close> are
  disjoint, together they are exactly the providers that were attempted, and the
  literature search (\<^verbatim>\<open>pubmed\<close>) is always one of them.
\<close>

theorem aggregate_partition:
  "\<exists>r. aggregate_search s w request = Inr r
      \<and> fst ` set (sources r) \<inter> fst ` set (errors r) = {}
      \<and> fst ` set (sources r) \<union> fst ` set (errors r) = fst ` set (tasks s w request)
      \<and> ''pubmed'' \<in> fst ` set (tasks s w request)
      \<and> ''pubmed'' \<in> fst ` set (sources r) \<union> fst ` set (errors r)"
proof -
  obtain r where r: "aggregate_search s w request = Inr r"
    using aggregate_search_result by blast
  have p: "''pubmed'' \<in> fst ` set (tasks s w request)"
  proof -
    have "''pubmed'' \<in> set (map fst (tasks s w request))" by (simp only: tasks_names) simp
    then show ?thesis by simp
  qed
  from aggregate_keys(2) [OF r] p
  have "''pubmed'' \<in> fst ` set (sources r) \<union> fst ` set (errors r)" by blast
  with r aggregate_keys [OF r] p show ?thesis by blast
qed

lemma key_available_iff:
  "key_available w a b =
     ((\<exists>v. getenv w a = Some v \<and> v \<noteq> []) \<or> (\<exists>v. getenv w b = Some v \<and> v \<noteq> []))"
  by (auto simp: key_available_def not_set_def py_or_def split: option.splits)

text \<open>
  Claim C3, as amended. The providers attempted are \<^verbatim>\<open>pubmed\<close>, always, and each of
  \<^verbatim>\<open>perplexity\<close>, \<^verbatim>\<open>exa\<close> and \<^verbatim>\<open>tavily\<close> exactly when one of its two environment variables
  is set to a non-empty value. \<^verbatim>\<open>uptodate\<close> and \<^verbatim>\<open>mksap\<close> are never attempted, whatever
  the session flags are. The keys of \<^verbatim>\<open>sources\<close> and \<^verbatim>\<open>errors\<close> are the attempted
  providers, so a provider left out is in neither.
\<close>

theorem aggregate_candidates:
  "map fst (tasks s w request) =
     [''pubmed''] @
     (if key_available w ''PERPLEXITY_API_KEY'' ''VITE_PERPLEXITY_API_KEY'' then [''perplexity''] else []) @
     (if key_available w ''EXA_API_KEY'' ''VITE_EXA_API_KEY'' then [''exa''] else []) @
     (if key_available w ''TAVILY_API_KEY'' ''VITE_TAVILY_API_KEY'' then [''tavily''] else [])
   \<and> key_available w a b =
       ((\<exists>v. getenv w a = Some v \<and> v \<noteq> []) \<or> (\<exists>v. getenv w b = Some v \<and> v \<noteq> []))
   \<and> ''uptodate'' \<notin> fst ` set (tasks s w request)
   \<and> ''mksap'' \<notin> fst ` set (tasks s w request)
   \<and> (\<exists>r. aggregate_search s w request = Inr r
         \<and> fst ` set (sources r) \<union> fst ` set (errors r) = fst ` set (tasks s w request))"
proof -
  obtain r where r: "aggregate_search s w request = Inr r"
    using aggregate_search_result by blast
  have "''uptodate'' \<notin> set (map fst (tasks s w request))"
    "''mksap'' \<notin> set (map fst (tasks s w request))"
    by (simp_all only: tasks_names) simp_all
  then have u: "''uptodate'' \<notin> fst ` set (tasks s w request)"
    "''mksap'' \<notin> fst ` set (tasks s w request)"
    by simp_all
  have e: "\<exists>r. aggregate_search s w request = Inr r
         \<and> fst ` set (sources r) \<union> fst ` set (errors r) = fst ` set (tasks s w request)"
    using r aggregate_keys(2) [OF r] by blast
  show ?thesis
    using tasks_names [of s w request] key_available_iff [of w a b] u e
    by blast
qed

lemma offline_pubmed:
  "search_pubmed offline_world ''sepsis'' 5 = Inl (HTTPException 500 ''PubMed search failed: offline'')"
  by (simp add: search_pubmed_def search_pubmed_run_def offline_world_def and_then_def
      failed_500_def)

lemma offline_tasks:
  "tasks member_scraper offline_world sepsis_request =
     [(''pubmed'', Inl (HTTPException 500 ''PubMed search failed: offline''))]"
proof -
  have k: "\<not> key_available offline_world a b" for a b
    by (simp add: key_available_def not_set_def py_or_def offline_world_def)
  have q: "query sepsis_request = ''sepsis''" "max_results sepsis_request = 5"
    by (simp_all add: sepsis_request_def)
  show ?thesis
    by (simp only: tasks_def k q offline_pubmed if_False append_Nil2)
qed

lemma str_nat_500: "str_nat 500 = ''500''"
  by code_simp

text \<open>
  The claim C3 as the specification has it includes an authenticated-content provider
  once its session is authenticated. With both sessions authenticated and no API key
  set, the aggregate attempts the literature search alone.
\<close>

theorem aggregate_skips_authenticated_counterexample:
  "logged_in_uptodate member_scraper \<and> logged_in_mksap member_scraper
   \<and> aggregate_search member_scraper offline_world sepsis_request =
       Inr \<lparr>agg_query = ''sepsis'', sources = [],
            errors = [(''pubmed'', ''500: PubMed search failed: offline'')],
            combined_content = [], all_citations = [], agg_timestamp = 0\<rparr>"
proof -
  have 1: "logged_in_uptodate member_scraper \<and> logged_in_mksap member_scraper"
    by (simp add: member_scraper_def)
  have 2: "execute offline_world (tasks member_scraper offline_world sepsis_request) ([], [])
      = ([], [(''pubmed'', ''500: PubMed search failed: offline'')])"
    by (simp add: offline_tasks str_nat_500)
  have 3: "query sepsis_request = ''sepsis''" "now offline_world = 0"
    by (simp_all add: sepsis_request_def offline_world_def)
  have "aggregate_search member_scraper offline_world sepsis_request =
       Inr \<lparr>agg_query = ''sepsis'', sources = [],
            errors = [(''pubmed'', ''500: PubMed search failed: offline'')],
            combined_content = [], all_citations = [], agg_timestamp = 0\<rparr>"
    by (simp add: aggregate_search_def 2 3)
  with 1 show ?thesis by simp
qed

subsection \<open>Result normalization\<close>

lemma url_host_bare: "url_host name bare_url_result = Inl IndexError"
  by (simp add: url_host_def bare_url_result_def and_then_def)

text \<open>
  Claim C5 says that normalizing an Exa or Tavily result never raises, whatever string
  its \<^verbatim>\<open>url\<close> is. On the result with the URL \<^verbatim>\<open>example.com\<close> the source expression
  \<^verbatim>\<open>url.split("/")[2]\<close> raises \<open>IndexError\<close>, and the whole search fails with it.
\<close>

theorem bare_url_raises:
  "exa_citation 0 bare_url_result = Inl IndexError
   \<and> tavily_citation 0 bare_url_result = Inl IndexError
   \<and> search_exa bare_url_world ''sepsis'' 5 = Inl IndexError
   \<and> search_tavily bare_url_world ''sepsis'' 5 = Inl IndexError"
proof -
  have t: "py_get bare_url_result ''title'' d = Inr (JStr ''Sepsis guideline'')" for d
    by (simp add: bare_url_result_def)
  have 1: "exa_citation i bare_url_result = Inl IndexError" for i
    by (simp add: exa_citation_def t url_host_bare and_then_def)
  have 2: "tavily_citation i bare_url_result = Inl IndexError" for i
    by (simp add: tavily_citation_def t url_host_bare and_then_def)
  have 3: "search_exa bare_url_world ''sepsis'' 5 = Inl IndexError"
    by (simp add: search_exa_def bare_url_world_def offline_world_def py_or_def exa_response_def
        and_then_def 1)
  have 4: "search_tavily bare_url_world ''sepsis'' 5 = Inl IndexError"
    by (simp add: search_tavily_def bare_url_world_def offline_world_def py_or_def
        tavily_response_def and_then_def 2)
  from 1 2 3 4 show ?thesis by simp
qed

subsection \<open>Login\<close>

text \<open>Either login sets its own flag exactly when it returns true, and never touches
  the other flag.\<close>

lemma login_uptodate_flags:
  assumes "login_uptodate st pg s username password = (ok, s')"
  shows "logged_in_uptodate s' = (ok \<or> logged_in_uptodate s)"
    and "logged_in_mksap s' = logged_in_mksap s"
  using assms
  by (auto simp: login_uptodate_def start_browser_def split: if_splits launch_result.splits sum.splits)

lemma login_mksap_flags:
  assumes "login_mksap st pg s username password = (ok, s', done)"
  shows "logged_in_mksap s' = (ok \<or> logged_in_mksap s)"
    and "logged_in_uptodate s' = logged_in_uptodate s"
  using assms
  by (auto simp: login_mksap_def start_browser_def split: if_splits launch_result.splits sum.splits prod.splits)

lemma fill_first_blank: "fill_first blank_login_page v sels = []"
  by (induction sels) (simp_all add: blank_login_page_def)

lemma click_first_blank: "click_first blank_login_page sels = []"
  by (induction sels) (simp_all add: blank_login_page_def)

text \<open>
  Claim C4 says that a login returns false on any failure, a selector mismatch included.
  On a page where no selector matches, \<^verbatim>\<open>login_mksap\<close> fills and clicks nothing, yet
  returns true and sets the session flag; \<^verbatim>\<open>login_uptodate\<close> on the same page returns
  false and leaves its flag unset.
\<close>

theorem mksap_login_without_form:
  "login_mksap flaky_site blank_login_page init_scraper ''user'' ''secret'' =
     (True, init_scraper\<lparr>browser := True, page := True, logged_in_mksap := True\<rparr>, [])
   \<and> login_uptodate flaky_site blank_login_page init_scraper ''user'' ''secret'' =
     (False, init_scraper\<lparr>browser := True, page := True\<rparr>)"
proof -
  have s: "start_browser flaky_site init_scraper = (True, init_scraper\<lparr>browser := True, page := True\<rparr>, [Launch])"
    by (simp add: start_browser_def flaky_site_def init_scraper_def)
  have m: "mksap_steps blank_login_page (init_scraper\<lparr>browser := True, page := True\<rparr>) ''user'' ''secret''
      = Inr (''https://www.acponline.org/maintenance'', [])"
    by (simp add: mksap_steps_def fill_first_blank click_first_blank and_then_def)
      (simp add: blank_login_page_def)
  have u: "uptodate_steps blank_login_page (init_scraper\<lparr>browser := True, page := True\<rparr>) ''user'' ''secret''
      = Inl (BrowserError ''Timeout 15000ms exceeded'')"
    by (simp add: uptodate_steps_def blank_login_page_def and_then_def)
  show ?thesis
    by (simp add: login_mksap_def login_uptodate_def s m u)
qed

subsection \<open>Citation identifiers\<close>


























end
